theory Spec2Isabelle
  imports Complex_Main
begin

section \<open>Python values and the operations the scraper applies to them\<close>

text \<open>
  The raw query response is whatever the JSON decoder returns: \<open>None\<close>, booleans,
  integers, strings, lists and string-keyed dictionaries. Numbers with a fractional part
  (Python floats) are left out of the value universe. A dictionary is an association
  list; a lookup takes the first entry of a key. Strings are \<open>char\<close> lists holding the
  UTF-8 bytes of the Python string (substring search, splitting and replacement of ASCII
  separators act on the bytes as they do on the code points).
\<close>

datatype pyval =
    PNone
  | PBool bool
  | PInt int
  | PStr string
  | PList "pyval list"
  | PDict "(string \<times> pyval) list"

datatype pyerr =
    TypeError
  | AttributeError
  | KeyError
  | ValueError
  | ValidationError
  | EmptyDataError
  | ParserError

text \<open>Truth value of an object, as \<open>bool(v)\<close>, \<open>not v\<close> and \<open>a and b\<close> test it.\<close>

fun truthy :: "pyval \<Rightarrow> bool" where
  "truthy PNone = False"
| "truthy (PBool b) = b"
| "truthy (PInt i) = (i \<noteq> 0)"
| "truthy (PStr s) = (s \<noteq> [])"
| "truthy (PList xs) = (xs \<noteq> [])"
| "truthy (PDict kvs) = (kvs \<noteq> [])"

fun is_dict :: "pyval \<Rightarrow> bool" where
  "is_dict (PDict kvs) = True"
| "is_dict v = False"

fun is_list :: "pyval \<Rightarrow> bool" where
  "is_list (PList xs) = True"
| "is_list v = False"

fun startswith :: "string \<Rightarrow> string \<Rightarrow> bool" where
  "startswith s [] = True"
| "startswith [] (p # ps) = False"
| "startswith (c # cs) (p # ps) = (c = p \<and> startswith cs ps)"

text \<open>\<open>sub in s\<close> on two strings: \<open>sub\<close> occurs in \<open>s\<close> as a contiguous block.\<close>

fun str_contains :: "string \<Rightarrow> string \<Rightarrow> bool" where
  "str_contains [] sub = (sub = [])"
| "str_contains (c # cs) sub = (startswith (c # cs) sub \<or> str_contains cs sub)"

text \<open>
  \<open>key in container\<close> for a string \<open>key\<close>: key membership on a dictionary, element
  membership on a list, substring test on a string, \<open>TypeError\<close> on everything else.
\<close>

fun py_in :: "string \<Rightarrow> pyval \<Rightarrow> pyerr + bool" where
  "py_in k (PDict kvs) = Inr (map_of kvs k \<noteq> None)"
| "py_in k (PList xs) = Inr (PStr k \<in> set xs)"
| "py_in k (PStr s) = Inr (str_contains s k)"
| "py_in k v = Inl TypeError"

text \<open>\<open>container[key]\<close> for a string \<open>key\<close>.\<close>

fun py_getitem :: "pyval \<Rightarrow> string \<Rightarrow> pyerr + pyval" where
  "py_getitem (PDict kvs) k = (case map_of kvs k of Some v \<Rightarrow> Inr v | None \<Rightarrow> Inl KeyError)"
| "py_getitem v k = Inl TypeError"

text \<open>The method call \<open>obj.get(key, default)\<close>: only dictionaries have it.\<close>

fun py_get :: "pyval \<Rightarrow> string \<Rightarrow> pyval \<Rightarrow> pyerr + pyval" where
  "py_get (PDict kvs) k d = Inr (case map_of kvs k of Some v \<Rightarrow> v | None \<Rightarrow> d)"
| "py_get v k d = Inl AttributeError"

text \<open>The elements a \<open>for\<close> loop visits.\<close>

fun py_iter :: "pyval \<Rightarrow> pyerr + pyval list" where
  "py_iter (PList xs) = Inr xs"
| "py_iter (PDict kvs) = Inr (map PStr (remdups (map fst kvs)))"
| "py_iter (PStr s) = Inr (map (\<lambda>c. PStr [c]) s)"
| "py_iter v = Inl TypeError"

text \<open>
  \<open>s.split(sep)\<close>: scan from the left, cut at every occurrence of \<open>sep\<close> and go on after
  it. An empty separator is a \<open>ValueError\<close>.
\<close>

function split_from :: "string \<Rightarrow> string \<Rightarrow> string \<Rightarrow> string list" where
  "split_from sep cur [] = [cur]"
| "split_from sep cur (c # cs) =
     (if sep \<noteq> [] \<and> startswith (c # cs) sep
      then cur # split_from sep [] (drop (length sep) (c # cs))
      else split_from sep (cur @ [c]) cs)"
  by pat_completeness auto
termination
  by (relation "measure (\<lambda>(sep, cur, s). length s)") auto

definition str_split :: "string \<Rightarrow> string \<Rightarrow> pyerr + string list" where
  "str_split s sep = (if sep = [] then Inl ValueError else Inr (split_from sep [] s))"

text \<open>\<open>sep.join(xs)\<close>.\<close>

fun str_join :: "string \<Rightarrow> string list \<Rightarrow> string" where
  "str_join sep [] = []"
| "str_join sep [x] = x"
| "str_join sep (x # y # ys) = x @ sep @ str_join sep (y # ys)"

text \<open>\<open>s.replace(old, new)\<close> for a one-character \<open>old\<close>: every occurrence is replaced.\<close>

definition str_replace_char :: "string \<Rightarrow> char \<Rightarrow> string \<Rightarrow> string" where
  "str_replace_char s old new = concat (map (\<lambda>c. if c = old then new else [c]) s)"

section \<open>Constants and the Parameter enumeration\<close>

definition LINDAS_BASE_URL :: string where
  "LINDAS_BASE_URL = ''https://environment.ld.admin.ch/foen/hydro''"

definition DIMENSION_URL :: string where
  "DIMENSION_URL = LINDAS_BASE_URL @ ''/dimension''"

definition CSV_COLUMNS :: "string list" where
  "CSV_COLUMNS = [''timestamp'', ''station_id'', ''discharge'', ''water_level'',
     ''danger_level'', ''water_temperature'', ''is_liter'']"

datatype Parameter =
    STATION
  | DISCHARGE
  | MEASUREMENT_TIME
  | WATER_LEVEL
  | DANGER_LEVEL
  | WATER_TEMPERATURE
  | IS_LITER

fun Parameter_value :: "Parameter \<Rightarrow> string" where
  "Parameter_value STATION = ''station''"
| "Parameter_value DISCHARGE = ''discharge''"
| "Parameter_value MEASUREMENT_TIME = ''measurementTime''"
| "Parameter_value WATER_LEVEL = ''waterLevel''"
| "Parameter_value DANGER_LEVEL = ''dangerLevel''"
| "Parameter_value WATER_TEMPERATURE = ''waterTemperature''"
| "Parameter_value IS_LITER = ''isLiter''"

definition Parameter_uri :: "Parameter \<Rightarrow> string" where
  "Parameter_uri p =
     (if p = IS_LITER then ''http://example.com/isLiter''
      else DIMENSION_URL @ ''/'' @ Parameter_value p)"

section \<open>DataProcessor\<close>

text \<open>
  \<open>_validate_results\<close>: the \<open>and\<close> chain stops at the first falsy operand; an operand
  that raises ends the call with that exception.
\<close>

definition validate_results :: "pyval \<Rightarrow> pyerr + bool" where
  "validate_results results =
     (if \<not> truthy results then Inr False
      else if \<not> is_dict results then Inr False
      else case py_in ''results'' results of
        Inl e \<Rightarrow> Inl e
      | Inr False \<Rightarrow> Inr False
      | Inr True \<Rightarrow>
         (case py_getitem results ''results'' of
            Inl e \<Rightarrow> Inl e
          | Inr r \<Rightarrow>
             (case py_in ''bindings'' r of
                Inl e \<Rightarrow> Inl e
              | Inr False \<Rightarrow> Inr False
              | Inr True \<Rightarrow>
                 (case py_getitem r ''bindings'' of
                    Inl e \<Rightarrow> Inl e
                  | Inr b \<Rightarrow> Inr (truthy b)))))"

definition field_mapping :: "(string \<times> string) list" where
  "field_mapping =
     [(''measurementTime'', ''timestamp''),
      (''discharge'', ''discharge''),
      (''waterLevel'', ''water_level''),
      (''waterTemperature'', ''water_temperature''),
      (''dangerLevel'', ''danger_level''),
      (''isLiter'', ''is_liter'')]"

text \<open>
  \<open>_map_predicate_to_field\<close>. The predicate is whatever the binding carried; on a string
  the two \<open>in\<close> tests are substring tests and \<open>split(...)[-1]\<close> is the last piece.
\<close>

fun str_method_split :: "pyval \<Rightarrow> string \<Rightarrow> pyerr + string list" where
  "str_method_split (PStr s) sep = str_split s sep"
| "str_method_split v sep = Inl AttributeError"

definition lookup_param :: "pyerr + string list \<Rightarrow> pyerr + string option" where
  "lookup_param pieces =
     (case pieces of
        Inl e \<Rightarrow> Inl e
      | Inr ps \<Rightarrow> Inr (map_of field_mapping (last ps)))"

definition map_predicate_to_field :: "pyval \<Rightarrow> pyerr + string option" where
  "map_predicate_to_field predicate_uri =
     (case py_in ''/dimension/'' predicate_uri of
        Inl e \<Rightarrow> Inl e
      | Inr True \<Rightarrow> lookup_param (str_method_split predicate_uri ''/dimension/'')
      | Inr False \<Rightarrow>
         (case py_in ''example.com/'' predicate_uri of
            Inl e \<Rightarrow> Inl e
          | Inr True \<Rightarrow> lookup_param (str_method_split predicate_uri ''example.com/'')
          | Inr False \<Rightarrow> Inr None))"

text \<open>
  \<open>_extract_data\<close>: \<open>data\<close> is a dictionary from field names to the raw values, built
  by one pass over the bindings. \<open>extract_binding\<close> is the body of the loop.
\<close>

type_synonym data = "string \<rightharpoonup> pyval"

definition binding_predicate :: "pyval \<Rightarrow> pyerr + pyval" where
  "binding_predicate binding =
     (case py_get binding ''predicate'' (PDict []) of
        Inl e \<Rightarrow> Inl e
      | Inr p \<Rightarrow> py_get p ''value'' (PStr []))"

definition binding_value :: "pyval \<Rightarrow> pyerr + pyval" where
  "binding_value binding =
     (case py_get binding ''object'' (PDict []) of
        Inl e \<Rightarrow> Inl e
      | Inr ob \<Rightarrow> py_get ob ''value'' PNone)"

definition extract_binding :: "data \<Rightarrow> pyval \<Rightarrow> pyerr + data" where
  "extract_binding d binding =
     (case binding_predicate binding of
        Inl e \<Rightarrow> Inl e
      | Inr predicate \<Rightarrow>
         (case binding_value binding of
            Inl e \<Rightarrow> Inl e
          | Inr v \<Rightarrow>
             if \<not> truthy predicate \<or> v = PNone then Inr d
             else (case map_predicate_to_field predicate of
                     Inl e \<Rightarrow> Inl e
                   | Inr None \<Rightarrow> Inr d
                   | Inr (Some field_name) \<Rightarrow>
                       if field_name \<noteq> [] then Inr (d(field_name \<mapsto> v)) else Inr d)))"

fun extract_loop :: "data \<Rightarrow> pyval list \<Rightarrow> pyerr + data" where
  "extract_loop d [] = Inr d"
| "extract_loop d (binding # rest) =
     (case extract_binding d binding of
        Inl e \<Rightarrow> Inl e
      | Inr d' \<Rightarrow> extract_loop d' rest)"

definition extract_data :: "pyval \<Rightarrow> string \<Rightarrow> pyerr + data" where
  "extract_data results station_id =
     (case py_getitem results ''results'' of
        Inl e \<Rightarrow> Inl e
      | Inr r \<Rightarrow>
         (case py_getitem r ''bindings'' of
            Inl e \<Rightarrow> Inl e
          | Inr b \<Rightarrow>
             (case py_iter b of
                Inl e \<Rightarrow> Inl e
              | Inr bindings \<Rightarrow>
                  extract_loop [''station_id'' \<mapsto> PStr station_id] bindings)))"

section \<open>Library operations\<close>

text \<open>
  A table as \<open>pandas.read_csv(path, dtype=str)\<close> returns it: the column names and the
  rows, a cell being a string or missing (\<open>NaN\<close>).
\<close>

record DataFrame =
  columns :: "string list"
  rows :: "string option list list"

text \<open>
  The scraper calls into the Python standard library, pydantic and pandas. What these
  calls return is not fixed by the repository, so the model takes them as a record of
  functions \<open>L\<close>; \<open>'dec\<close> is \<open>decimal.Decimal\<close> and \<open>'dt\<close> is \<open>datetime.datetime\<close>.
  A parser returns \<open>None\<close> where the library raises.
  \<^item> \<open>str_strip\<close>, \<open>str_lower\<close>: \<open>s.strip()\<close>, \<open>s.lower()\<close>;
  \<^item> \<open>str_of\<close>: \<open>str(v)\<close> of a value that is not a string;
  \<^item> \<open>Decimal_new\<close>, \<open>Decimal_str\<close>: \<open>Decimal(s)\<close> (\<open>InvalidOperation\<close> is \<open>None\<close>), \<open>str(d)\<close>;
  \<^item> \<open>fromisoformat\<close>, \<open>isoformat\<close>: \<open>datetime.fromisoformat(s)\<close> (\<open>ValueError\<close> is
    \<open>None\<close>), \<open>t.isoformat()\<close>;
  \<^item> \<open>pyd_strip\<close>: pydantic's \<open>str_strip_whitespace\<close>; \<open>pyd_decimal\<close>: whether pydantic
    accepts a \<open>Decimal\<close> instance for a \<open>Decimal | None\<close> field; \<open>pyd_int\<close>: pydantic's
    conversion of an input to \<open>int\<close> (\<open>None\<close> is a validation error);
  \<^item> \<open>read_csv\<close>, \<open>to_csv\<close>: \<open>pandas.read_csv(path, dtype=str)\<close> on the text of a file,
    and the text \<open>df.to_csv(path, index=False)\<close> writes.
\<close>

record ('dec, 'dt) pylib =
  str_strip :: "string \<Rightarrow> string"
  str_lower :: "string \<Rightarrow> string"
  str_of :: "pyval \<Rightarrow> string"
  Decimal_new :: "string \<Rightarrow> 'dec option"
  Decimal_str :: "'dec \<Rightarrow> string"
  fromisoformat :: "string \<Rightarrow> 'dt option"
  isoformat :: "'dt \<Rightarrow> string"
  pyd_strip :: "string \<Rightarrow> string"
  pyd_decimal :: "'dec \<Rightarrow> bool"
  pyd_int :: "pyval \<Rightarrow> int option"
  read_csv :: "string \<Rightarrow> pyerr + DataFrame"
  to_csv :: "DataFrame \<Rightarrow> string"

section \<open>Measurement\<close>

record ('dec, 'dt) Measurement =
  station_id :: string
  timestamp :: 'dt
  discharge :: "'dec option"
  water_level :: "'dec option"
  water_temperature :: "'dec option"
  danger_level :: "int option"
  is_liter :: "bool option"

text \<open>The three \<open>mode="before"\<close> validators.\<close>

definition py_str :: "('dec, 'dt) pylib \<Rightarrow> pyval \<Rightarrow> string" where
  "py_str L v = (case v of PStr s \<Rightarrow> s | _ \<Rightarrow> str_of L v)"

definition parse_decimal :: "('dec, 'dt) pylib \<Rightarrow> pyval \<Rightarrow> 'dec option" where
  "parse_decimal L v =
     (if v = PNone then None
      else if (case v of PStr s \<Rightarrow> str_strip L s = [] | _ \<Rightarrow> False) then None
      else Decimal_new L (py_str L v))"

definition parse_timestamp :: "('dec, 'dt) pylib \<Rightarrow> pyval \<Rightarrow> pyerr + 'dt" where
  "parse_timestamp L v =
     (case v of
        PStr s \<Rightarrow>
          (case fromisoformat L (str_replace_char s (CHR ''Z'') ''+00:00'') of
             Some t \<Rightarrow> Inr t
           | None \<Rightarrow> Inl ValueError)
      | _ \<Rightarrow> Inl ValueError)"

definition parse_bool :: "('dec, 'dt) pylib \<Rightarrow> pyval \<Rightarrow> bool option" where
  "parse_bool L v =
     (case v of
        PNone \<Rightarrow> None
      | PBool b \<Rightarrow> Some b
      | PStr s \<Rightarrow>
          (let v_lower = str_strip L (str_lower L s)
           in if v_lower \<in> set [''true'', ''1'', ''yes''] then Some True
              else if v_lower \<in> set [''false'', ''0'', ''no''] then Some False
              else None)
      | _ \<Rightarrow> None)"

text \<open>
  Validation of one field of \<open>Measurement(**data)\<close>: the argument is the entry of the
  keyword dictionary (\<open>None\<close>: the key is absent), the result is \<open>None\<close> when the field
  is in error. A field that is absent takes its default without validation;
  \<open>station_id\<close> and \<open>timestamp\<close> have no default. \<open>danger_level\<close> carries the
  constraints \<open>ge=0\<close> and \<open>le=5\<close>.
\<close>

definition field_station_id :: "('dec, 'dt) pylib \<Rightarrow> pyval option \<Rightarrow> string option" where
  "field_station_id L x = (case x of Some (PStr s) \<Rightarrow> Some (pyd_strip L s) | _ \<Rightarrow> None)"

definition field_timestamp :: "('dec, 'dt) pylib \<Rightarrow> pyval option \<Rightarrow> 'dt option" where
  "field_timestamp L x =
     (case x of
        None \<Rightarrow> None
      | Some v \<Rightarrow> (case parse_timestamp L v of Inl e \<Rightarrow> None | Inr t \<Rightarrow> Some t))"

definition field_decimal :: "('dec, 'dt) pylib \<Rightarrow> pyval option \<Rightarrow> 'dec option option" where
  "field_decimal L x =
     (case x of
        None \<Rightarrow> Some None
      | Some v \<Rightarrow>
          (case parse_decimal L v of
             None \<Rightarrow> Some None
           | Some dc \<Rightarrow> if pyd_decimal L dc then Some (Some dc) else None))"

definition field_danger_level :: "('dec, 'dt) pylib \<Rightarrow> pyval option \<Rightarrow> int option option" where
  "field_danger_level L x =
     (case x of
        None \<Rightarrow> Some None
      | Some PNone \<Rightarrow> Some None
      | Some v \<Rightarrow>
          (case pyd_int L v of
             None \<Rightarrow> None
           | Some i \<Rightarrow> if 0 \<le> i \<and> i \<le> 5 then Some (Some i) else None))"

definition field_is_liter :: "('dec, 'dt) pylib \<Rightarrow> pyval option \<Rightarrow> bool option option" where
  "field_is_liter L x = (case x of None \<Rightarrow> Some None | Some v \<Rightarrow> Some (parse_bool L v))"

text \<open>\<open>Measurement(**data)\<close>: the instance, or \<open>ValidationError\<close> when a field is in error.\<close>

definition Measurement_init ::
  "('dec, 'dt) pylib \<Rightarrow> data \<Rightarrow> pyerr + ('dec, 'dt) Measurement" where
  "Measurement_init L d =
     (case (field_station_id L (d ''station_id''),
            field_timestamp L (d ''timestamp''),
            field_decimal L (d ''discharge''),
            field_decimal L (d ''water_level''),
            field_decimal L (d ''water_temperature''),
            field_danger_level L (d ''danger_level''),
            field_is_liter L (d ''is_liter'')) of
        (Some sid, Some ts, Some dis, Some wl, Some wt, Some dl, Some il) \<Rightarrow>
          Inr \<lparr>station_id = sid, timestamp = ts, discharge = dis, water_level = wl,
               water_temperature = wt, danger_level = dl, is_liter = il\<rparr>
      | _ \<Rightarrow> Inl ValidationError)"

definition has_measurements :: "('dec, 'dt) Measurement \<Rightarrow> bool" where
  "has_measurements m =
     (discharge m \<noteq> None \<or> water_level m \<noteq> None \<or> water_temperature m \<noteq> None)"

text \<open>\<open>str(i)\<close> of an integer, and \<open>str(b).lower()\<close> of a boolean.\<close>

definition digit_char :: "nat \<Rightarrow> char" where
  "digit_char d =
     (if d = 0 then CHR ''0'' else if d = 1 then CHR ''1'' else if d = 2 then CHR ''2''
      else if d = 3 then CHR ''3'' else if d = 4 then CHR ''4'' else if d = 5 then CHR ''5''
      else if d = 6 then CHR ''6'' else if d = 7 then CHR ''7'' else if d = 8 then CHR ''8''
      else CHR ''9'')"

fun digits_of :: "nat \<Rightarrow> string" where
  "digits_of n =
     (if n < 10 then [digit_char n] else digits_of (n div 10) @ [digit_char (n mod 10)])"

definition int_str :: "int \<Rightarrow> string" where
  "int_str i = (if i < 0 then ''-'' @ digits_of (nat (- i)) else digits_of (nat i))"

definition bool_str_lower :: "bool \<Rightarrow> string" where
  "bool_str_lower b = (if b then ''true'' else ''false'')"

definition to_csv_dict ::
  "('dec, 'dt) pylib \<Rightarrow> ('dec, 'dt) Measurement \<Rightarrow> (string \<times> string option) list" where
  "to_csv_dict L m =
     [(''timestamp'', Some (isoformat L (timestamp m))),
      (''station_id'', Some (station_id m)),
      (''discharge'', map_option (Decimal_str L) (discharge m)),
      (''water_level'', map_option (Decimal_str L) (water_level m)),
      (''danger_level'', map_option int_str (danger_level m)),
      (''water_temperature'', map_option (Decimal_str L) (water_temperature m)),
      (''is_liter'', map_option bool_str_lower (is_liter m))]"

definition unique_key :: "('dec, 'dt) pylib \<Rightarrow> ('dec, 'dt) Measurement \<Rightarrow> string" where
  "unique_key L m = isoformat L (timestamp m) @ ''_'' @ station_id m"

section \<open>DataProcessor.process_results\<close>

text \<open>
  The result is \<open>Inl e\<close> when the call raises \<open>e\<close>, \<open>Inr None\<close> when it returns \<open>None\<close>
  and \<open>Inr (Some m)\<close> when it returns the measurement \<open>m\<close>. Only the construction of
  the measurement sits inside the \<open>try\<close>.
\<close>

definition data_get :: "data \<Rightarrow> string \<Rightarrow> pyval" where
  "data_get d k = (case d k of Some v \<Rightarrow> v | None \<Rightarrow> PNone)"

definition process_results ::
  "('dec, 'dt) pylib \<Rightarrow> pyval \<Rightarrow> string \<Rightarrow> pyerr + ('dec, 'dt) Measurement option" where
  "process_results L results sid =
     (case validate_results results of
        Inl e \<Rightarrow> Inl e
      | Inr False \<Rightarrow> Inr None
      | Inr True \<Rightarrow>
         (case extract_data results sid of
            Inl e \<Rightarrow> Inl e
          | Inr d \<Rightarrow>
             if \<not> truthy (data_get d ''timestamp'') then Inr None
             else (case Measurement_init L d of
                     Inl e \<Rightarrow> Inr None
                   | Inr measurement \<Rightarrow>
                       if has_measurements measurement then Inr (Some measurement)
                       else Inr None)))"

section \<open>SparqlClient\<close>

text \<open>
  \<open>_validate_results\<close> of the client. The last operand is only evaluated when the
  three before it are true.
\<close>

definition client_validate_results :: "pyval \<Rightarrow> pyerr + bool" where
  "client_validate_results results =
     (if \<not> is_dict results then Inr False
      else case py_in ''results'' results of
        Inl e \<Rightarrow> Inl e
      | Inr False \<Rightarrow> Inr False
      | Inr True \<Rightarrow>
         (case py_getitem results ''results'' of
            Inl e \<Rightarrow> Inl e
          | Inr r \<Rightarrow>
             (case py_in ''bindings'' r of
                Inl e \<Rightarrow> Inl e
              | Inr False \<Rightarrow> Inr False
              | Inr True \<Rightarrow>
                 (case py_getitem r ''bindings'' of
                    Inl e \<Rightarrow> Inl e
                  | Inr b \<Rightarrow> Inr (is_list b)))))"

text \<open>\<open>len(results.get("results", {}).get("bindings", []))\<close>, computed for the log line.\<close>

fun py_len :: "pyval \<Rightarrow> pyerr + nat" where
  "py_len (PStr s) = Inr (length s)"
| "py_len (PList xs) = Inr (length xs)"
| "py_len (PDict kvs) = Inr (length (remdups (map fst kvs)))"
| "py_len v = Inl TypeError"

definition bindings_count :: "pyval \<Rightarrow> pyerr + nat" where
  "bindings_count results =
     (case py_get results ''results'' (PDict []) of
        Inl e \<Rightarrow> Inl e
      | Inr r \<Rightarrow>
         (case py_get r ''bindings'' (PList []) of
            Inl e \<Rightarrow> Inl e
          | Inr b \<Rightarrow> py_len b))"

text \<open>
  What \<open>self._client.query().convert()\<close> does at one attempt: it returns a value, raises
  a \<open>SPARQLWrapperException\<close>, or raises something else. The endpoint, for the query at
  hand, is a function from the attempt number to that outcome. The effects of \<open>execute_query\<close> on the outside
  are the requests it sends and the waits it makes, recorded in order.
\<close>

datatype outcome =
    Returns pyval
  | RaisesSparqlWrapperException
  | RaisesOther

datatype effect =
    Query
  | Sleep rat

record SparqlClient =
  max_retries :: int
  initial_delay :: rat

text \<open>
  The \<open>for attempt in range(self.max_retries)\<close> loop, over the attempt numbers still to
  come; \<open>retry_delay\<close> and the effects so far are carried along. An exception other than
  \<open>SPARQLWrapperException\<close> inside the \<open>try\<close> (also one raised by the validation or by the
  count for the log line) returns \<open>None\<close>.
\<close>

fun execute_loop ::
  "(nat \<Rightarrow> outcome) \<Rightarrow> int \<Rightarrow> nat list \<Rightarrow> rat \<Rightarrow> effect list \<Rightarrow> pyval option \<times> effect list" where
  "execute_loop endpoint maxr [] retry_delay effs = (None, effs)"
| "execute_loop endpoint maxr (attempt # rest) retry_delay effs =
     (case endpoint attempt of
        Returns results \<Rightarrow>
          (case client_validate_results results of
             Inl e \<Rightarrow> (None, effs @ [Query])
           | Inr False \<Rightarrow> (None, effs @ [Query])
           | Inr True \<Rightarrow>
              (case bindings_count results of
                 Inl e \<Rightarrow> (None, effs @ [Query])
               | Inr n \<Rightarrow> (Some results, effs @ [Query])))
      | RaisesSparqlWrapperException \<Rightarrow>
          if int attempt < maxr - 1
          then execute_loop endpoint maxr rest (retry_delay * 2) (effs @ [Query, Sleep retry_delay])
          else execute_loop endpoint maxr rest retry_delay (effs @ [Query])
      | RaisesOther \<Rightarrow> (None, effs @ [Query]))"

definition execute_query :: "SparqlClient \<Rightarrow> (nat \<Rightarrow> outcome) \<Rightarrow> pyval option \<times> effect list" where
  "execute_query c endpoint =
     execute_loop endpoint (max_retries c) [0 ..< nat (max_retries c)] (initial_delay c) []"

section \<open>CsvHandler\<close>

text \<open>
  \<open>csv.DictWriter(f, fieldnames=CSV_COLUMNS)\<close> with the default dialect: a row dictionary
  is laid out in the order of the field names, \<open>None\<close> is written as the empty string, and
  a field is enclosed in double quotes (with the quotes inside doubled) when it holds a
  comma, a double quote, a carriage return or a line feed. \<open>csv_record\<close> is the text of
  one row; \<open>writerow\<close> writes it followed by the line terminator CR LF.
\<close>

type_synonym rowdict = "(string \<times> string option) list"

definition csv_needs_quote :: "string \<Rightarrow> bool" where
  "csv_needs_quote s = list_ex (\<lambda>c. c \<in> set [CHR '','', CHR 0x22, CHR 0x0D, CHR 0x0A]) s"

definition csv_field :: "string \<Rightarrow> string" where
  "csv_field s =
     (if csv_needs_quote s
      then [CHR 0x22] @ str_replace_char s (CHR 0x22) [CHR 0x22, CHR 0x22] @ [CHR 0x22]
      else s)"

definition csv_record :: "string option list \<Rightarrow> string" where
  "csv_record cells =
     str_join '','' (map (\<lambda>c. csv_field (case c of None \<Rightarrow> [] | Some s \<Rightarrow> s)) cells)"

definition lineterminator :: string where
  "lineterminator = [CHR 0x0D, CHR 0x0A]"

definition csv_writerow :: "string option list \<Rightarrow> string" where
  "csv_writerow cells = csv_record cells @ lineterminator"

definition dict_to_list :: "string list \<Rightarrow> rowdict \<Rightarrow> string option list" where
  "dict_to_list fieldnames rowdict =
     map (\<lambda>k. case map_of rowdict k of Some v \<Rightarrow> v | None \<Rightarrow> Some []) fieldnames"

definition DictWriter_writerow :: "string list \<Rightarrow> rowdict \<Rightarrow> string" where
  "DictWriter_writerow fieldnames rowdict = csv_writerow (dict_to_list fieldnames rowdict)"

text \<open>
  The handler and the file at its path: \<open>csv_file\<close> is \<open>None\<close> when no file exists, else
  the text of the file, character by character (the files are opened with \<open>newline=""\<close>,
  so line terminators are written and kept as they are); \<open>processed_keys\<close> is the
  in-memory index;
  \<open>logged\<close> collects the log records (the text of a caught exception is left out of the
  message).
\<close>

datatype level = DEBUG | INFO | WARNING | ERROR

record CsvHandler =
  csv_path :: string
  csv_file :: "string option"
  processed_keys :: "string set"
  logged :: "(level \<times> string) list"

text \<open>
  How a write to the file ends: it succeeds, or it raises and leaves behind whatever the
  operating system kept.
\<close>

datatype io_outcome =
    IoOk
  | IoError "string option"

definition log_record :: "level \<Rightarrow> string \<Rightarrow> CsvHandler \<Rightarrow> CsvHandler" where
  "log_record lv msg st = st\<lparr>logged := logged st @ [(lv, msg)]\<rparr>"

definition ensure_csv_exists :: "CsvHandler \<Rightarrow> CsvHandler" where
  "ensure_csv_exists st =
     (if csv_file st = None
      then log_record INFO (''Created new CSV file: '' @ csv_path st)
             (st\<lparr>csv_file := Some (csv_writerow (map Some CSV_COLUMNS))\<rparr>)
      else st)"

text \<open>\<open>row.get(col)\<close> on a row of the table: missing when the table has no such column.\<close>

fun index_of :: "string list \<Rightarrow> string \<Rightarrow> nat option" where
  "index_of [] k = None"
| "index_of (c # cs) k = (if c = k then Some 0 else map_option Suc (index_of cs k))"

definition cell :: "DataFrame \<Rightarrow> string option list \<Rightarrow> string \<Rightarrow> string option" where
  "cell df row col =
     (case index_of (columns df) col of
        None \<Rightarrow> None
      | Some i \<Rightarrow> if i < length row then row ! i else None)"

definition row_key :: "DataFrame \<Rightarrow> string option list \<Rightarrow> string list" where
  "row_key df row =
     (case (cell df row ''timestamp'', cell df row ''station_id'') of
        (Some t, Some s) \<Rightarrow> [t @ ''_'' @ s]
      | _ \<Rightarrow> [])"

definition keys_of_frame :: "DataFrame \<Rightarrow> string set" where
  "keys_of_frame df = set (concat (map (row_key df) (rows df)))"

definition load_processed_keys :: "('dec, 'dt) pylib \<Rightarrow> CsvHandler \<Rightarrow> CsvHandler" where
  "load_processed_keys L st =
     (case csv_file st of
        None \<Rightarrow> st
      | Some content \<Rightarrow>
          if content = [] then st
          else (case read_csv L content of
                  Inr df \<Rightarrow>
                    log_record DEBUG (''Loaded '' @ digits_of (card (keys_of_frame df)) @ '' existing records'')
                      (st\<lparr>processed_keys := keys_of_frame df\<rparr>)
                | Inl e \<Rightarrow>
                    log_record ERROR ''Error loading existing records: '' (st\<lparr>processed_keys := {}\<rparr>)))"

definition CsvHandler_init ::
  "('dec, 'dt) pylib \<Rightarrow> string \<Rightarrow> string option \<Rightarrow> CsvHandler" where
  "CsvHandler_init L path on_disk =
     load_processed_keys L
       (ensure_csv_exists \<lparr>csv_path = path, csv_file = on_disk, processed_keys = {}, logged = []\<rparr>)"

text \<open>The loop of \<open>save_measurements\<close>, carrying \<open>new_records\<close> and the index.\<close>

fun save_loop ::
  "('dec, 'dt) pylib \<Rightarrow> rowdict list \<Rightarrow> string set \<Rightarrow> ('dec, 'dt) Measurement list
     \<Rightarrow> rowdict list \<times> string set" where
  "save_loop L new_records keys [] = (new_records, keys)"
| "save_loop L new_records keys (measurement # rest) =
     (if unique_key L measurement \<notin> keys
      then save_loop L (new_records @ [to_csv_dict L measurement])
             (insert (unique_key L measurement) keys) rest
      else save_loop L new_records keys rest)"

text \<open>
  Opening the file in mode \<open>"a"\<close> appends to the text that is there (to the empty text
  when there is no file); \<open>writerows\<close> writes every row with its line terminator.
\<close>

definition file_text :: "CsvHandler \<Rightarrow> string" where
  "file_text st = (case csv_file st of None \<Rightarrow> [] | Some content \<Rightarrow> content)"

definition DictWriter_writerows :: "string list \<Rightarrow> rowdict list \<Rightarrow> string" where
  "DictWriter_writerows fieldnames rowdicts = concat (map (DictWriter_writerow fieldnames) rowdicts)"

definition save_measurements ::
  "('dec, 'dt) pylib \<Rightarrow> CsvHandler \<Rightarrow> ('dec, 'dt) Measurement list \<Rightarrow> io_outcome
     \<Rightarrow> nat \<times> CsvHandler" where
  "save_measurements L st measurements io =
     (if measurements = [] then (0, st)
      else let (new_records, keys) = save_loop L [] (processed_keys st) measurements;
               st1 = st\<lparr>processed_keys := keys\<rparr>
           in if new_records \<noteq> [] then
                (case io of
                   IoOk \<Rightarrow>
                     (length new_records,
                      log_record INFO (''Saved '' @ digits_of (length new_records) @ '' new records to ''
                                  @ csv_path st)
                        (st1\<lparr>csv_file := Some (file_text st
                                   @ DictWriter_writerows CSV_COLUMNS new_records)\<rparr>))
                 | IoError left \<Rightarrow>
                     (0, log_record ERROR ''Error writing to CSV: '' (st1\<lparr>csv_file := left\<rparr>)))
              else (length new_records, st1))"




section \<open>A reference library\<close>

text \<open>
  One instance of the library record, used to run the model on concrete inputs. It
  follows the documented behaviour of the libraries on ASCII text: whitespace is the
  ASCII whitespace, letters are the ASCII letters, \<open>fromisoformat\<close> accepts the forms
  \<open>YYYY-MM-DD[*HH[:MM[:SS[.fff[fff]]]][+HH:MM[:SS]]]\<close> that every interpreter since 3.7
  accepts, \<open>Decimal\<close> follows the numeric-string grammar of the \<open>decimal\<close> module and
  \<open>str\<close> its to-scientific-string conversion, and the table reader handles quoted
  fields and the default missing-value markers. No general statement below depends on
  this instance.
\<close>

definition is_space :: "char \<Rightarrow> bool" where
  "is_space c = (c \<in> set [CHR '' '', CHR 0x09, CHR 0x0A, CHR 0x0B, CHR 0x0C, CHR 0x0D])"

definition ascii_strip :: "string \<Rightarrow> string" where
  "ascii_strip s = rev (dropWhile is_space (rev (dropWhile is_space s)))"

definition lower_char :: "char \<Rightarrow> char" where
  "lower_char c =
     (case map_of (zip ''ABCDEFGHIJKLMNOPQRSTUVWXYZ'' ''abcdefghijklmnopqrstuvwxyz'') c of
        Some l \<Rightarrow> l
      | None \<Rightarrow> c)"

definition ascii_lower :: "string \<Rightarrow> string" where
  "ascii_lower s = map lower_char s"

definition is_digit :: "char \<Rightarrow> bool" where
  "is_digit c = (48 \<le> (of_char c :: nat) \<and> (of_char c :: nat) \<le> 57)"

definition nat_of_digits :: "string \<Rightarrow> nat" where
  "nat_of_digits s = foldl (\<lambda>n c. 10 * n + ((of_char c :: nat) - 48)) 0 s"

text \<open>An optional sign followed by digits only, as \<open>int(s)\<close> reads it.\<close>

definition signed_digits :: "string \<Rightarrow> int option" where
  "signed_digits s =
     (let (neg, ds) = (case s of
                         c # r \<Rightarrow> if c = CHR ''-'' then (True, r)
                                  else if c = CHR ''+'' then (False, r) else (False, s)
                       | [] \<Rightarrow> (False, s))
      in if ds \<noteq> [] \<and> list_all is_digit ds
         then Some (if neg then - int (nat_of_digits ds) else int (nat_of_digits ds))
         else None)"

text \<open>
  \<open>str(v)\<close>; inside a list or dictionary a string is shown in single quotes, without
  escapes.
\<close>

fun ref_repr :: "pyval \<Rightarrow> string" where
  "ref_repr PNone = ''None''"
| "ref_repr (PBool b) = (if b then ''True'' else ''False'')"
| "ref_repr (PInt i) = int_str i"
| "ref_repr (PStr s) = [CHR 0x27] @ s @ [CHR 0x27]"
| "ref_repr (PList xs) = ''['' @ str_join '', '' (map ref_repr xs) @ '']''"
| "ref_repr (PDict kvs) =
     ''{'' @ str_join '', ''
              (map (\<lambda>kv. [CHR 0x27] @ fst kv @ [CHR 0x27] @ '': '' @ ref_repr (snd kv)) kvs)
       @ ''}''"

definition ref_str_of :: "pyval \<Rightarrow> string" where
  "ref_str_of v = (case v of PStr s \<Rightarrow> s | _ \<Rightarrow> ref_repr v)"

text \<open>
  \<open>Decimal\<close>: a finite number is sign, coefficient and exponent; the special values are
  the infinities and the quiet and signalling NaNs with their diagnostic digits.
\<close>

datatype decimal =
    Finite bool nat int
  | Infinity bool
  | NaN bool bool string

definition dec_exponent :: "string \<Rightarrow> int option" where
  "dec_exponent s =
     (case s of
        [] \<Rightarrow> Some 0
      | c # r \<Rightarrow> if c = CHR ''e'' \<or> c = CHR ''E'' then signed_digits r else None)"

definition dec_finite :: "bool \<Rightarrow> string \<Rightarrow> decimal option" where
  "dec_finite sg u =
     (let intpart = takeWhile is_digit u;
          r1 = dropWhile is_digit u;
          (fracpart, r2) = (case r1 of
                              c # r \<Rightarrow> if c = CHR ''.'' then (takeWhile is_digit r, dropWhile is_digit r)
                                       else ([], r1)
                            | [] \<Rightarrow> ([], r1))
      in if intpart = [] \<and> fracpart = [] then None
         else (case dec_exponent r2 of
                 None \<Rightarrow> None
               | Some e \<Rightarrow> Some (Finite sg (nat_of_digits (intpart @ fracpart)) (e - int (length fracpart)))))"

definition ref_Decimal :: "string \<Rightarrow> decimal option" where
  "ref_Decimal s =
     (let t = filter (\<lambda>c. c \<noteq> CHR ''_'') (ascii_strip s);
          (sg, u) = (case t of
                       c # r \<Rightarrow> if c = CHR ''-'' then (True, r)
                                else if c = CHR ''+'' then (False, r) else (False, t)
                     | [] \<Rightarrow> (False, t));
          l = ascii_lower u
      in if l = ''inf'' \<or> l = ''infinity'' then Some (Infinity sg)
         else if startswith l ''nan'' \<and> list_all is_digit (drop 3 u)
           then Some (NaN sg False (dropWhile (\<lambda>c. c = CHR ''0'') (drop 3 u)))
         else if startswith l ''snan'' \<and> list_all is_digit (drop 4 u)
           then Some (NaN sg True (dropWhile (\<lambda>c. c = CHR ''0'') (drop 4 u)))
         else dec_finite sg u)"

definition ref_Decimal_str :: "decimal \<Rightarrow> string" where
  "ref_Decimal_str d =
     (case d of
        Finite sg c e \<Rightarrow>
          (let ds = digits_of c;
               n = int (length ds);
               leftdigits = e + n;
               dotplace = (if e \<le> 0 \<and> leftdigits > - 6 then leftdigits else 1);
               intpart = (if dotplace \<le> 0 then ''0''
                          else if dotplace \<ge> n then ds @ replicate (nat (dotplace - n)) (CHR ''0'')
                          else take (nat dotplace) ds);
               fracpart = (if dotplace \<le> 0 then ''.'' @ replicate (nat (- dotplace)) (CHR ''0'') @ ds
                           else if dotplace \<ge> n then []
                           else ''.'' @ drop (nat dotplace) ds);
               ex = (if leftdigits = dotplace then []
                     else ''E'' @ (if leftdigits - dotplace < 0 then ''-'' else ''+'')
                            @ digits_of (nat \<bar>leftdigits - dotplace\<bar>))
           in (if sg then ''-'' else []) @ intpart @ fracpart @ ex)
      | Infinity sg \<Rightarrow> (if sg then ''-'' else []) @ ''Infinity''
      | NaN sg signalling diag \<Rightarrow>
          (if sg then ''-'' else []) @ (if signalling then ''sNaN'' else ''NaN'') @ diag)"

definition ref_pyd_decimal :: "decimal \<Rightarrow> bool" where
  "ref_pyd_decimal d = (case d of Finite sg c e \<Rightarrow> True | _ \<Rightarrow> False)"

definition ref_pyd_int :: "pyval \<Rightarrow> int option" where
  "ref_pyd_int v =
     (case v of
        PInt i \<Rightarrow> Some i
      | PBool b \<Rightarrow> Some (if b then 1 else 0)
      | PStr s \<Rightarrow> signed_digits (ascii_strip s)
      | _ \<Rightarrow> None)"

text \<open>
  \<open>datetime\<close>: the calendar fields and the offset from UTC in seconds (\<open>None\<close> for a naive
  value).
\<close>

record datetime =
  dt_year :: nat
  dt_month :: nat
  dt_day :: nat
  dt_hour :: nat
  dt_minute :: nat
  dt_second :: nat
  dt_microsecond :: nat
  dt_utcoffset :: "int option"

definition take_num :: "nat \<Rightarrow> string \<Rightarrow> (nat \<times> string) option" where
  "take_num k s =
     (if k \<le> length s \<and> list_all is_digit (take k s)
      then Some (nat_of_digits (take k s), drop k s) else None)"

definition expect_char :: "char \<Rightarrow> string \<Rightarrow> string option" where
  "expect_char c s = (case s of x # r \<Rightarrow> if x = c then Some r else None | [] \<Rightarrow> None)"

definition parse_fraction :: "string \<Rightarrow> (nat \<times> string) option" where
  "parse_fraction s =
     (case take_num 6 s of
        Some r \<Rightarrow> Some r
      | None \<Rightarrow> (case take_num 3 s of Some (ms, r) \<Rightarrow> Some (ms * 1000, r) | None \<Rightarrow> None))"

text \<open>\<open>HH[:MM[:SS[.fff[fff]]]]\<close> at the head of a string, and what follows it.\<close>

definition parse_hms :: "string \<Rightarrow> ((nat \<times> nat \<times> nat \<times> nat) \<times> string) option" where
  "parse_hms s =
     (case take_num 2 s of
        None \<Rightarrow> None
      | Some (h, r1) \<Rightarrow>
         (case expect_char (CHR '':'') r1 of
            None \<Rightarrow> Some ((h, 0, 0, 0), r1)
          | Some r1' \<Rightarrow>
             (case take_num 2 r1' of
                None \<Rightarrow> None
              | Some (mi, r2) \<Rightarrow>
                 (case expect_char (CHR '':'') r2 of
                    None \<Rightarrow> Some ((h, mi, 0, 0), r2)
                  | Some r2' \<Rightarrow>
                     (case take_num 2 r2' of
                        None \<Rightarrow> None
                      | Some (sec, r3) \<Rightarrow>
                         (case expect_char (CHR ''.'') r3 of
                            None \<Rightarrow> Some ((h, mi, sec, 0), r3)
                          | Some r3' \<Rightarrow>
                             (case parse_fraction r3' of
                                None \<Rightarrow> None
                              | Some (us, r4) \<Rightarrow> Some ((h, mi, sec, us), r4))))))))"

definition parse_offset :: "string \<Rightarrow> int option option" where
  "parse_offset s =
     (case s of
        [] \<Rightarrow> Some None
      | c # r \<Rightarrow>
          if c = CHR ''+'' \<or> c = CHR ''-'' then
            (case parse_hms r of
               Some ((h, mi, sec, us), rest) \<Rightarrow>
                 if rest = [] \<and> us = 0 \<and> h < 24 \<and> mi < 60 \<and> sec < 60
                 then Some (Some ((if c = CHR ''-'' then - 1 else 1) * int (h * 3600 + mi * 60 + sec)))
                 else None
             | None \<Rightarrow> None)
          else None)"

definition days_in_month :: "nat \<Rightarrow> nat \<Rightarrow> nat" where
  "days_in_month y m =
     (if m = 2 then (if y mod 4 = 0 \<and> (y mod 100 \<noteq> 0 \<or> y mod 400 = 0) then 29 else 28)
      else if m = 4 \<or> m = 6 \<or> m = 9 \<or> m = 11 then 30 else 31)"

definition parse_date :: "string \<Rightarrow> ((nat \<times> nat \<times> nat) \<times> string) option" where
  "parse_date s =
     (case take_num 4 s of
        None \<Rightarrow> None
      | Some (y, r1) \<Rightarrow>
         (case expect_char (CHR ''-'') r1 of
            None \<Rightarrow> None
          | Some r1' \<Rightarrow>
             (case take_num 2 r1' of
                None \<Rightarrow> None
              | Some (m, r2) \<Rightarrow>
                 (case expect_char (CHR ''-'') r2 of
                    None \<Rightarrow> None
                  | Some r2' \<Rightarrow>
                     (case take_num 2 r2' of
                        None \<Rightarrow> None
                      | Some (d, r3) \<Rightarrow>
                          if 1 \<le> y \<and> 1 \<le> m \<and> m \<le> 12 \<and> 1 \<le> d \<and> d \<le> days_in_month y m
                          then Some ((y, m, d), r3) else None)))))"

definition ref_fromisoformat :: "string \<Rightarrow> datetime option" where
  "ref_fromisoformat s =
     (case parse_date s of
        None \<Rightarrow> None
      | Some ((y, m, d), r) \<Rightarrow>
         (case r of
            [] \<Rightarrow> Some \<lparr>dt_year = y, dt_month = m, dt_day = d, dt_hour = 0, dt_minute = 0,
                         dt_second = 0, dt_microsecond = 0, dt_utcoffset = None\<rparr>
          | sep # t \<Rightarrow>
             (case parse_hms t of
                None \<Rightarrow> None
              | Some ((h, mi, sec, us), rest) \<Rightarrow>
                 (case parse_offset rest of
                    None \<Rightarrow> None
                  | Some off \<Rightarrow>
                      if h < 24 \<and> mi < 60 \<and> sec < 60
                      then Some \<lparr>dt_year = y, dt_month = m, dt_day = d, dt_hour = h,
                                  dt_minute = mi, dt_second = sec, dt_microsecond = us,
                                  dt_utcoffset = off\<rparr>
                      else None))))"

definition pad :: "nat \<Rightarrow> nat \<Rightarrow> string" where
  "pad w n = replicate (w - length (digits_of n)) (CHR ''0'') @ digits_of n"

definition offset_str :: "int option \<Rightarrow> string" where
  "offset_str off =
     (case off of
        None \<Rightarrow> []
      | Some secs \<Rightarrow>
          (let a = nat \<bar>secs\<bar>
           in (if secs < 0 then ''-'' else ''+'') @ pad 2 (a div 3600) @ '':'' @ pad 2 (a mod 3600 div 60)
                @ (if a mod 60 \<noteq> 0 then '':'' @ pad 2 (a mod 60) else [])))"

definition ref_isoformat :: "datetime \<Rightarrow> string" where
  "ref_isoformat t =
     pad 4 (dt_year t) @ ''-'' @ pad 2 (dt_month t) @ ''-'' @ pad 2 (dt_day t) @ ''T''
       @ pad 2 (dt_hour t) @ '':'' @ pad 2 (dt_minute t) @ '':'' @ pad 2 (dt_second t)
       @ (if dt_microsecond t \<noteq> 0 then ''.'' @ pad 6 (dt_microsecond t) else [])
       @ offset_str (dt_utcoffset t)"

text \<open>
  The table reader: the text is cut into lines at LF, CR LF and CR outside
  quotes, the first line is the header, blank lines are skipped, a cell holding one of
  the default missing-value markers is missing, a short row is filled with missing
  cells, and a row longer than the header is a \<open>ParserError\<close>. The table writer ends
  every line with LF.
\<close>

fun split_lines :: "bool \<Rightarrow> bool \<Rightarrow> string \<Rightarrow> string \<Rightarrow> string list" where
  "split_lines quoted after_cr cur [] = (if cur = [] then [] else [cur])"
| "split_lines quoted after_cr cur (c # cs) =
     (if after_cr \<and> c = CHR 0x0A then split_lines quoted False cur cs
      else if c = CHR 0x22 then split_lines (\<not> quoted) False (cur @ [c]) cs
      else if quoted then split_lines True False (cur @ [c]) cs
      else if c = CHR 0x0A then cur # split_lines False False [] cs
      else if c = CHR 0x0D then cur # split_lines False True [] cs
      else split_lines False False (cur @ [c]) cs)"

fun csv_split :: "bool \<Rightarrow> string \<Rightarrow> string \<Rightarrow> string list" where
  "csv_split quoted cur [] = [cur]"
| "csv_split quoted cur (c # cs) =
     (if quoted then
        (if c = CHR 0x22 then
           (case cs of
              c' # cs' \<Rightarrow> if c' = CHR 0x22 then csv_split True (cur @ [c]) cs'
                          else csv_split False cur cs
            | [] \<Rightarrow> csv_split False cur cs)
         else csv_split True (cur @ [c]) cs)
      else if c = CHR '','' then cur # csv_split False [] cs
      else if c = CHR 0x22 then csv_split True cur cs
      else csv_split False (cur @ [c]) cs)"

definition na_values :: "string list" where
  "na_values = ['''', ''#N/A'', ''#N/A N/A'', ''#NA'', ''-1.#IND'', ''-1.#QNAN'', ''-NaN'', ''-nan'',
     ''1.#IND'', ''1.#QNAN'', ''<NA>'', ''N/A'', ''NA'', ''NULL'', ''NaN'', ''None'', ''n/a'', ''nan'',
     ''null'']"

definition na_cell :: "string \<Rightarrow> string option" where
  "na_cell s = (if s \<in> set na_values then None else Some s)"

definition ref_read_csv :: "string \<Rightarrow> pyerr + DataFrame" where
  "ref_read_csv content =
     (case filter (\<lambda>r. r \<noteq> []) (split_lines False False [] content) of
        [] \<Rightarrow> Inl EmptyDataError
      | header # body \<Rightarrow>
          (let cols = csv_split False [] header;
               n = length cols;
               parsed = map (\<lambda>r. map na_cell (csv_split False [] r)) body
           in if list_all (\<lambda>row. length row \<le> n) parsed
              then Inr \<lparr>columns = cols,
                        rows = map (\<lambda>row. row @ replicate (n - length row) None) parsed\<rparr>
              else Inl ParserError))"

definition ref_to_csv :: "DataFrame \<Rightarrow> string" where
  "ref_to_csv df =
     concat (map (\<lambda>cells. csv_record cells @ [CHR 0x0A]) (map Some (columns df) # rows df))"

definition py :: "(decimal, datetime) pylib" where
  "py = \<lparr>str_strip = ascii_strip, str_lower = ascii_lower, str_of = ref_str_of,
          Decimal_new = ref_Decimal, Decimal_str = ref_Decimal_str,
          fromisoformat = ref_fromisoformat, isoformat = ref_isoformat,
          pyd_strip = ascii_strip, pyd_decimal = ref_pyd_decimal, pyd_int = ref_pyd_int,
          read_csv = ref_read_csv, to_csv = ref_to_csv\<rparr>"

section \<open>LindasHydroScraper: one station through mapper and store\<close>

text \<open>
  What \<open>run\<close> does with the response of one station: the mapper's record, if there is
  one, goes to \<open>save_measurements\<close>; without a record nothing is saved.
\<close>

definition map_and_store ::
  "('dec, 'dt) pylib \<Rightarrow> pyval \<Rightarrow> string \<Rightarrow> CsvHandler \<Rightarrow> io_outcome \<Rightarrow> pyerr + nat \<times> CsvHandler" where
  "map_and_store L results site_code st io =
     (case process_results L results site_code of
        Inl e \<Rightarrow> Inl e
      | Inr None \<Rightarrow> Inr (0, st)
      | Inr (Some measurement) \<Rightarrow> Inr (save_measurements L st [measurement] io))"

section \<open>Notions used in the statements\<close>

text \<open>A response in the JSON results format, built from its bindings.\<close>

definition sparql_binding :: "string \<Rightarrow> string \<Rightarrow> pyval" where
  "sparql_binding p v =
     PDict [(''predicate'', PDict [(''value'', PStr p)]), (''object'', PDict [(''value'', PStr v)])]"

definition sparql_response :: "pyval list \<Rightarrow> pyval" where
  "sparql_response bs = PDict [(''results'', PDict [(''bindings'', PList bs)])]"

text \<open>The extracted fields of a response (empty when the extraction raises).\<close>

definition extracted :: "pyval \<Rightarrow> string \<Rightarrow> data" where
  "extracted results sid = (case extract_data results sid of Inr d \<Rightarrow> d | Inl e \<Rightarrow> Map.empty)"

text \<open>
  The conditions of the validity gate, read off the extracted fields: a non-empty
  timestamp string that parses; a measurement field that is non-null after coercion; and
  the fields passing the model's own validation (a coerced decimal is accepted by the
  decimal field, a danger level converts to an integer from 0 to 5).
\<close>

definition timestamp_parseable :: "('dec, 'dt) pylib \<Rightarrow> data \<Rightarrow> bool" where
  "timestamp_parseable L d =
     (case d ''timestamp'' of
        Some (PStr s) \<Rightarrow> s \<noteq> [] \<and> fromisoformat L (str_replace_char s (CHR ''Z'') ''+00:00'') \<noteq> None
      | _ \<Rightarrow> False)"

definition coerced :: "('dec, 'dt) pylib \<Rightarrow> data \<Rightarrow> string \<Rightarrow> 'dec option" where
  "coerced L d f = (case d f of None \<Rightarrow> None | Some v \<Rightarrow> parse_decimal L v)"

definition measured_after_coercion :: "('dec, 'dt) pylib \<Rightarrow> data \<Rightarrow> bool" where
  "measured_after_coercion L d =
     (coerced L d ''discharge'' \<noteq> None \<or> coerced L d ''water_level'' \<noteq> None
      \<or> coerced L d ''water_temperature'' \<noteq> None)"

definition fields_valid :: "('dec, 'dt) pylib \<Rightarrow> data \<Rightarrow> bool" where
  "fields_valid L d =
     (field_decimal L (d ''discharge'') \<noteq> None \<and> field_decimal L (d ''water_level'') \<noteq> None
      \<and> field_decimal L (d ''water_temperature'') \<noteq> None
      \<and> field_danger_level L (d ''danger_level'') \<noteq> None)"

text \<open>
  The well-formed shape of a response: a mapping whose \<open>results\<close> entry is a mapping
  whose \<open>bindings\<close> entry is a list.
\<close>

definition well_formed :: "pyval \<Rightarrow> bool" where
  "well_formed r =
     (case r of
        PDict kvs \<Rightarrow>
          (case map_of kvs ''results'' of
             Some (PDict kvs') \<Rightarrow>
               (case map_of kvs' ''bindings'' of Some (PList bs) \<Rightarrow> True | _ \<Rightarrow> False)
           | _ \<Rightarrow> False)
      | _ \<Rightarrow> False)"

text \<open>
  The field and value a binding contributes to the extracted fields, if it is not
  skipped, and the value of the last binding of a list that contributes to a field.
\<close>

definition assigns :: "pyval \<Rightarrow> (string \<times> pyval) option" where
  "assigns b =
     (case (binding_predicate b, binding_value b) of
        (Inr p, Inr v) \<Rightarrow>
          if truthy p \<and> v \<noteq> PNone then
            (case map_predicate_to_field p of Inr (Some f) \<Rightarrow> Some (f, v) | _ \<Rightarrow> None)
          else None
      | _ \<Rightarrow> None)"

definition last_value :: "pyval list \<Rightarrow> string \<Rightarrow> pyval option" where
  "last_value bs f =
     (case filter (\<lambda>a. fst a = f) (List.map_filter assigns bs) of
        [] \<Rightarrow> None
      | a # as \<Rightarrow> Some (snd (last (a # as))))"

text \<open>
  The records of a batch that are staged: those whose key is neither in the index nor
  carried by an earlier record of the batch.
\<close>

definition staged ::
  "('dec, 'dt) pylib \<Rightarrow> string set \<Rightarrow> ('dec, 'dt) Measurement list \<Rightarrow> ('dec, 'dt) Measurement list" where
  "staged L keys ms =
     map (\<lambda>i. ms ! i)
       (filter (\<lambda>i. unique_key L (ms ! i) \<notin> keys
                    \<and> unique_key L (ms ! i) \<notin> unique_key L ` set (take i ms))
          [0 ..< length ms])"



text \<open>
  The response of the end-to-end example, and the timestamp and the record the reference
  library makes of it.
\<close>

definition example_response :: pyval where
  "example_response =
     sparql_response
       [sparql_binding (Parameter_uri MEASUREMENT_TIME) ''2024-01-15T10:30:00Z'',
        sparql_binding (Parameter_uri DISCHARGE) ''123.45'']"

definition example_time :: datetime where
  "example_time =
     \<lparr>dt_year = 2024, dt_month = 1, dt_day = 15, dt_hour = 10, dt_minute = 30, dt_second = 0,
      dt_microsecond = 0, dt_utcoffset = Some 0\<rparr>"

definition example_measurement :: "(decimal, datetime) Measurement" where
  "example_measurement =
     \<lparr>station_id = ''2044'', timestamp = example_time,
      discharge = Some (Finite False 12345 (- 2)), water_level = None,
      water_temperature = None, danger_level = None, is_liter = None\<rparr>"

definition HEADER :: string where
  "HEADER = ''timestamp,station_id,discharge,water_level,danger_level,water_temperature,is_liter''"









section \<open>Properties\<close>

subsection \<open>Parameter URIs through the predicate-to-field rule\<close>

lemma Parameter_uri_nonempty: "Parameter_uri p \<noteq> []"
  by (simp add: Parameter_uri_def DIMENSION_URL_def LINDAS_BASE_URL_def)

lemma map_predicate_DISCHARGE:
  "map_predicate_to_field (PStr (Parameter_uri DISCHARGE)) = Inr (Some ''discharge'')"
  by (simp add: Parameter_uri_def DIMENSION_URL_def LINDAS_BASE_URL_def
      map_predicate_to_field_def lookup_param_def str_split_def field_mapping_def)

lemma map_predicate_MEASUREMENT_TIME:
  "map_predicate_to_field (PStr (Parameter_uri MEASUREMENT_TIME)) = Inr (Some ''timestamp'')"
  by (simp add: Parameter_uri_def DIMENSION_URL_def LINDAS_BASE_URL_def
      map_predicate_to_field_def lookup_param_def str_split_def field_mapping_def)

lemma map_predicate_WATER_LEVEL:
  "map_predicate_to_field (PStr (Parameter_uri WATER_LEVEL)) = Inr (Some ''water_level'')"
  by (simp add: Parameter_uri_def DIMENSION_URL_def LINDAS_BASE_URL_def
      map_predicate_to_field_def lookup_param_def str_split_def field_mapping_def)

lemma map_predicate_DANGER_LEVEL:
  "map_predicate_to_field (PStr (Parameter_uri DANGER_LEVEL)) = Inr (Some ''danger_level'')"
  by (simp add: Parameter_uri_def DIMENSION_URL_def LINDAS_BASE_URL_def
      map_predicate_to_field_def lookup_param_def str_split_def field_mapping_def)

lemma map_predicate_WATER_TEMPERATURE:
  "map_predicate_to_field (PStr (Parameter_uri WATER_TEMPERATURE)) =
     Inr (Some ''water_temperature'')"
  by (simp add: Parameter_uri_def DIMENSION_URL_def LINDAS_BASE_URL_def
      map_predicate_to_field_def lookup_param_def str_split_def field_mapping_def)

lemma map_predicate_IS_LITER:
  "map_predicate_to_field (PStr (Parameter_uri IS_LITER)) = Inr (Some ''is_liter'')"
  by (simp add: Parameter_uri_def map_predicate_to_field_def lookup_param_def str_split_def
      field_mapping_def)

text \<open>
  C6, as stated: every member of the Parameter enumeration has a resource URI that the
  Result Mapper's predicate-to-field rule translates to a Record field name. It fails
  for the member \<open>station\<close>: its URI ends in \<open>/dimension/station\<close>, the rule extracts
  the identifier \<open>station\<close>, and the mapping table has no entry for it, so the binding
  is discarded.
\<close>

theorem C6_station_uri_unmapped:
  "map_predicate_to_field (PStr (Parameter_uri STATION)) = Inr None"
  by (simp add: Parameter_uri_def DIMENSION_URL_def LINDAS_BASE_URL_def
      map_predicate_to_field_def lookup_param_def str_split_def field_mapping_def)

text \<open>
  C6, amended: for every member of the Parameter enumeration other than \<open>station\<close>,
  translating the member's resource URI through the predicate-to-field rule yields a
  Record field name, which is one of the CSV columns and is not the station column. (The
  station field is set from the station identifier argument, never from a binding.)
\<close>

theorem C6_parameter_uris_mapped:
  "p \<noteq> STATION \<Longrightarrow>
     \<exists>f. map_predicate_to_field (PStr (Parameter_uri p)) = Inr (Some f)
        \<and> f \<in> set CSV_COLUMNS \<and> f \<noteq> ''station_id''"
proof (cases p)
  case STATION
  assume "p \<noteq> STATION"
  with STATION show ?thesis by simp
next
  case DISCHARGE
  then show ?thesis by (simp add: map_predicate_DISCHARGE CSV_COLUMNS_def)
next
  case MEASUREMENT_TIME
  then show ?thesis by (simp add: map_predicate_MEASUREMENT_TIME CSV_COLUMNS_def)
next
  case WATER_LEVEL
  then show ?thesis by (simp add: map_predicate_WATER_LEVEL CSV_COLUMNS_def)
next
  case DANGER_LEVEL
  then show ?thesis by (simp add: map_predicate_DANGER_LEVEL CSV_COLUMNS_def)
next
  case WATER_TEMPERATURE
  then show ?thesis by (simp add: map_predicate_WATER_TEMPERATURE CSV_COLUMNS_def)
next
  case IS_LITER
  then show ?thesis by (simp add: map_predicate_IS_LITER CSV_COLUMNS_def)
qed

theorem C6_parameter_uris_mapped_witness:
  "WATER_LEVEL \<noteq> STATION \<and>
     (\<exists>f. map_predicate_to_field (PStr (Parameter_uri WATER_LEVEL)) = Inr (Some f)
        \<and> f \<in> set CSV_COLUMNS \<and> f \<noteq> ''station_id'')"
proof -
  have h: "WATER_LEVEL \<noteq> STATION" by simp
  show ?thesis using h C6_parameter_uris_mapped [OF h] by simp
qed

subsection \<open>The mapper on malformed responses\<close>

lemma process_results_falsy:
  "\<not> truthy results \<Longrightarrow> process_results L results sid = Inr None"
  by (simp add: process_results_def validate_results_def)

lemma process_results_not_dict:
  "\<not> is_dict results \<Longrightarrow> process_results L results sid = Inr None"
  by (simp add: process_results_def validate_results_def)

lemma process_results_no_bindings:
  "process_results L (sparql_response []) sid = Inr None"
  by (simp add: process_results_def validate_results_def sparql_response_def)

text \<open>
  C2 says that \<open>process_results\<close> returns none, and never raises, on every malformed
  response, also when nested entries have the wrong types or the elements of the
  bindings are not mappings. The code raises on both kinds: the validation applies
  \<open>in\<close> to the \<open>results\<close> entry whatever its type, and the extraction, which sits
  outside the \<open>try\<close>, calls \<open>get\<close> on every element of the bindings. For every library
  and every station, the response \<open>{"results": {"bindings": ["x"]}}\<close> ends in an
  \<open>AttributeError\<close> and the response \<open>{"results": 5}\<close> in a \<open>TypeError\<close>.
\<close>

theorem C2_process_results_raises:
  "process_results L (sparql_response [PStr ''x'']) sid = Inl AttributeError
   \<and> process_results L (PDict [(''results'', PInt 5)]) sid = Inl TypeError"
  by (simp add: process_results_def sparql_response_def validate_results_def extract_data_def
      extract_binding_def binding_predicate_def)

subsection \<open>The retrying client\<close>

lemma well_formed_iff:
  "well_formed r \<longleftrightarrow>
     (\<exists>kvs kvs' bs. r = PDict kvs \<and> map_of kvs ''results'' = Some (PDict kvs')
        \<and> map_of kvs' ''bindings'' = Some (PList bs))"
  by (auto simp: well_formed_def split: pyval.splits option.splits)

text \<open>The client's validation accepts exactly the well-formed shape.\<close>

lemma client_validate_well_formed: "client_validate_results r = Inr True \<longleftrightarrow> well_formed r"
proof (cases r)
  case (PDict kvs)
  show ?thesis
  proof (cases "map_of kvs ''results''")
    case None
    with PDict show ?thesis by (simp add: client_validate_results_def well_formed_def)
  next
    case (Some rs)
    show ?thesis
    proof (cases rs)
      case (PDict kvs')
      with Some \<open>r = PDict kvs\<close> show ?thesis
        by (cases "map_of kvs' ''bindings''")
           (auto simp: client_validate_results_def well_formed_def split: pyval.splits)
    qed (use Some PDict in
          \<open>auto simp: client_validate_results_def well_formed_def split: bool.splits\<close>)
  qed
qed (simp_all add: client_validate_results_def well_formed_def)

lemma bindings_count_well_formed: "well_formed r \<Longrightarrow> \<exists>n. bindings_count r = Inr n"
  by (auto simp: well_formed_iff bindings_count_def)

text \<open>One turn of the loop, with the validation resolved.\<close>

lemma attempt_step:
  "execute_loop endpoint maxr (k # rest) delay effs =
     (case endpoint k of
        Returns r \<Rightarrow> ((if well_formed r then Some r else None), effs @ [Query])
      | RaisesSparqlWrapperException \<Rightarrow>
          if int k < maxr - 1
          then execute_loop endpoint maxr rest (delay * 2) (effs @ [Query, Sleep delay])
          else execute_loop endpoint maxr rest delay (effs @ [Query])
      | RaisesOther \<Rightarrow> (None, effs @ [Query]))"
proof (cases "endpoint k")
  case (Returns r)
  show ?thesis
  proof (cases "well_formed r")
    case True
    then have "client_validate_results r = Inr True" by (simp add: client_validate_well_formed)
    moreover obtain n where "bindings_count r = Inr n"
      using bindings_count_well_formed [OF True] by blast
    ultimately show ?thesis using Returns True by simp
  next
    case False
    then have "client_validate_results r \<noteq> Inr True" by (simp add: client_validate_well_formed)
    then show ?thesis using Returns False
      by (cases "client_validate_results r") (auto split: bool.splits)
  qed
qed simp_all

lemma loop_until_response:
  assumes "endpoint (i + m) = Returns r"
    and "\<forall>j<m. endpoint (i + j) = RaisesSparqlWrapperException"
    and "i + m < n" and "int n \<le> maxr"
  shows "execute_loop endpoint maxr [i ..< n] delay effs =
           ((if well_formed r then Some r else None),
            effs @ concat (map (\<lambda>j. [Query, Sleep (delay * 2 ^ j)]) [0 ..< m]) @ [Query])"
  using assms
proof (induction m arbitrary: i delay effs)
  case 0
  then have "[i ..< n] = i # [Suc i ..< n]" by (simp add: upt_conv_Cons)
  with 0 show ?case by (simp add: attempt_step del: execute_loop.simps)
next
  case (Suc m)
  have l: "[i ..< n] = i # [Suc i ..< n]" using Suc.prems by (simp add: upt_conv_Cons)
  have raise: "endpoint i = RaisesSparqlWrapperException" using Suc.prems(2) by force
  have lt: "int i < maxr - 1" using Suc.prems by linarith
  have ih: "execute_loop endpoint maxr [Suc i ..< n] (delay * 2) (effs @ [Query, Sleep delay]) =
      ((if well_formed r then Some r else None),
       (effs @ [Query, Sleep delay])
         @ concat (map (\<lambda>j. [Query, Sleep (delay * 2 * 2 ^ j)]) [0 ..< m]) @ [Query])"
  proof (rule Suc.IH)
    show "endpoint (Suc i + m) = Returns r" using Suc.prems(1) by simp
    show "\<forall>j<m. endpoint (Suc i + j) = RaisesSparqlWrapperException"
      using Suc.prems(2) by (metis Suc_less_eq add_Suc_right add_Suc)
    show "Suc i + m < n" using Suc.prems(3) by simp
    show "int n \<le> maxr" by (rule Suc.prems(4))
  qed
  have sh: "[0 ..< Suc m] = 0 # map Suc [0 ..< m]"
    by (simp add: upt_conv_Cons map_Suc_upt del: upt_Suc)
  show ?case
    unfolding l sh
    by (simp add: attempt_step raise lt ih o_def mult.assoc del: upt_Suc execute_loop.simps)
qed

text \<open>
  C4: a client with initial delay 1.0 and 4 attempts, against an endpoint whose every
  attempt fails with a \<open>SPARQLWrapperException\<close>, sends exactly 4 requests, waits exactly
  3 times, for 1.0, 2.0 and 4.0 seconds in that order, does not wait after the last
  attempt, and returns none.
\<close>

theorem C4_backoff_sequence:
  assumes "\<forall>i<4. endpoint i = RaisesSparqlWrapperException"
  shows "execute_query \<lparr>max_retries = 4, initial_delay = 1\<rparr> endpoint
           = (None, [Query, Sleep 1, Query, Sleep 2, Query, Sleep 4, Query])"
proof -
  have e: "endpoint 0 = RaisesSparqlWrapperException"
    "endpoint (Suc 0) = RaisesSparqlWrapperException"
    "endpoint 2 = RaisesSparqlWrapperException" "endpoint 3 = RaisesSparqlWrapperException"
    using assms by simp_all
  have l: "[0 ..< 4] = [0, Suc 0, 2, 3]" by (simp add: upt_rec)
  show ?thesis
    unfolding execute_query_def by (simp add: l e)
qed

theorem C4_backoff_sequence_witness:
  "execute_query \<lparr>max_retries = 4, initial_delay = 1\<rparr> (\<lambda>i. RaisesSparqlWrapperException)
     = (None, [Query, Sleep 1, Query, Sleep 2, Query, Sleep 4, Query])"
  using C4_backoff_sequence [of "\<lambda>i. RaisesSparqlWrapperException"] by simp

text \<open>
  C5: when the attempts before attempt \<open>k\<close> fail with a \<open>SPARQLWrapperException\<close> and
  attempt \<open>k\<close> (one of the allowed attempts) obtains a response, \<open>execute_query\<close> returns
  that response unchanged if its shape is well-formed (a mapping with a \<open>results\<close>
  mapping with a \<open>bindings\<close> list, which may be empty) and none if the shape is
  malformed; in both cases attempt \<open>k\<close> is the last request: after the \<open>k\<close> waits of the
  failed attempts there is no further wait and no retry.
\<close>

theorem C5_response_returned_or_none:
  assumes "\<forall>i<k. endpoint i = RaisesSparqlWrapperException"
    and "int k < max_retries c"
    and "endpoint k = Returns r"
  shows "execute_query c endpoint =
           ((if well_formed r then Some r else None),
            concat (map (\<lambda>i. [Query, Sleep (initial_delay c * 2 ^ i)]) [0 ..< k]) @ [Query])"
proof -
  have "execute_loop endpoint (max_retries c) [0 ..< nat (max_retries c)] (initial_delay c) [] =
      ((if well_formed r then Some r else None),
       [] @ concat (map (\<lambda>j. [Query, Sleep (initial_delay c * 2 ^ j)]) [0 ..< k]) @ [Query])"
  proof (rule loop_until_response)
    show "endpoint (0 + k) = Returns r" using assms(3) by simp
    show "\<forall>j<k. endpoint (0 + j) = RaisesSparqlWrapperException" using assms(1) by simp
    show "0 + k < nat (max_retries c)" using assms(2) by linarith
    show "int (nat (max_retries c)) \<le> max_retries c" using assms(2) by linarith
  qed
  then show ?thesis by (simp add: execute_query_def)
qed

theorem C5_response_returned_or_none_witness:
  "execute_query \<lparr>max_retries = 3, initial_delay = 2\<rparr>
      (\<lambda>i. if i = 0 then RaisesSparqlWrapperException else Returns (sparql_response []))
     = (Some (sparql_response []), [Query, Sleep 2, Query])
   \<and> execute_query \<lparr>max_retries = 3, initial_delay = 2\<rparr>
      (\<lambda>i. if i = 0 then RaisesSparqlWrapperException
            else Returns (PDict [(''results'', PList [PStr ''bindings''])]))
     = (None, [Query, Sleep 2, Query])"
proof -
  let ?c = "\<lparr>max_retries = 3, initial_delay = 2\<rparr>"
  let ?e = "\<lambda>r (i::nat). if i = 0 then RaisesSparqlWrapperException else Returns r"
  have h1: "\<forall>i<1. ?e r i = RaisesSparqlWrapperException" for r by simp
  have h2: "int 1 < max_retries ?c" by simp
  have h3: "?e r 1 = Returns r" for r by simp
  have w1: "well_formed (sparql_response [])"
    by (simp add: well_formed_def sparql_response_def)
  have w2: "\<not> well_formed (PDict [(''results'', PList [PStr ''bindings''])])"
    by (simp add: well_formed_def)
  show ?thesis
    using C5_response_returned_or_none [OF h1 h2 h3, of "sparql_response []"]
      C5_response_returned_or_none [OF h1 h2 h3, of "PDict [(''results'', PList [PStr ''bindings''])]"]
      w1 w2
    by simp
qed

subsection \<open>Field extraction\<close>

lemma mapped_field_nonempty:
  "map_predicate_to_field p = Inr (Some f) \<Longrightarrow> f \<noteq> []"
  by (auto simp: map_predicate_to_field_def lookup_param_def field_mapping_def
      split: sum.splits bool.splits if_splits)

lemma mapped_field_not_station:
  "map_predicate_to_field p = Inr (Some f) \<Longrightarrow> f \<noteq> ''station_id''"
  by (auto simp: map_predicate_to_field_def lookup_param_def field_mapping_def
      split: sum.splits bool.splits if_splits)

text \<open>One turn of the extraction loop stores what the binding contributes.\<close>

lemma extract_binding_assigns:
  assumes "extract_binding d b = Inr d'"
  shows "d' = (case assigns b of Some (f, v) \<Rightarrow> d(f \<mapsto> v) | None \<Rightarrow> d)"
  using assms mapped_field_nonempty
  by (auto simp: extract_binding_def assigns_def split: sum.splits option.splits if_splits)

lemma last_value_Cons:
  "last_value (b # bs) f =
     (case last_value bs f of
        Some v \<Rightarrow> Some v
      | None \<Rightarrow> (case assigns b of Some (g, v) \<Rightarrow> if g = f then Some v else None | None \<Rightarrow> None))"
  by (auto simp: last_value_def List.map_filter_simps split: option.splits list.splits)

lemma extract_loop_last_value:
  "extract_loop d bs = Inr d' \<Longrightarrow>
     d' f = (case last_value bs f of Some v \<Rightarrow> Some v | None \<Rightarrow> d f)"
proof (induction bs arbitrary: d)
  case Nil
  then show ?case by (simp add: last_value_def List.map_filter_simps)
next
  case (Cons b bs)
  from Cons.prems obtain d1 where b: "extract_binding d b = Inr d1"
    and rest: "extract_loop d1 bs = Inr d'"
    by (auto split: sum.splits)
  have d1: "d1 = (case assigns b of Some (g, v) \<Rightarrow> d(g \<mapsto> v) | None \<Rightarrow> d)"
    by (rule extract_binding_assigns [OF b])
  have "d' f = (case last_value bs f of Some v \<Rightarrow> Some v | None \<Rightarrow> d1 f)"
    by (rule Cons.IH [OF rest])
  then show ?case
    by (auto simp: last_value_Cons d1 split: option.splits)
qed

lemma last_value_station: "last_value bs ''station_id'' = None"
proof (induction bs)
  case Nil
  show ?case by (simp add: last_value_def List.map_filter_simps)
next
  case (Cons b bs)
  have "assigns b \<noteq> Some (''station_id'', v)" for v
    using mapped_field_not_station
    by (auto simp: assigns_def split: sum.splits option.splits if_splits)
  then show ?case using Cons by (auto simp: last_value_Cons split: option.splits)
qed

lemma extract_data_station:
  assumes "extract_data results sid = Inr d"
  shows "d ''station_id'' = Some (PStr sid)"
proof -
  from assms obtain bs where "extract_loop [''station_id'' \<mapsto> PStr sid] bs = Inr d"
    by (auto simp: extract_data_def split: sum.splits)
  from extract_loop_last_value [OF this, of "''station_id''"] show ?thesis
    by (simp add: last_value_station)
qed

text \<open>Validation and extraction on a response built from its bindings.\<close>

lemma validate_sparql_response: "validate_results (sparql_response (b # bs)) = Inr True"
  by (simp add: validate_results_def sparql_response_def)

lemma extract_data_sparql_response:
  "extract_data (sparql_response bs) sid = extract_loop [''station_id'' \<mapsto> PStr sid] bs"
  by (simp add: extract_data_def sparql_response_def)

lemma extract_sparql_binding:
  assumes "map_predicate_to_field (PStr u) = Inr (Some f)" and "u \<noteq> []"
  shows "extract_binding d (sparql_binding u v) = Inr (d(f \<mapsto> PStr v))"
  using assms mapped_field_nonempty [OF assms(1)]
  by (simp add: extract_binding_def sparql_binding_def binding_predicate_def binding_value_def)

lemma extract_without_object:
  "extract_binding d (PDict [(''predicate'', PDict [(''value'', PStr u)])]) = Inr d"
  by (simp add: extract_binding_def binding_predicate_def binding_value_def)

lemma assigns_sparql_binding:
  assumes "map_predicate_to_field (PStr u) = Inr (Some f)" and "u \<noteq> []"
  shows "assigns (sparql_binding u v) = Some (f, PStr v)"
  using assms by (simp add: assigns_def sparql_binding_def binding_predicate_def binding_value_def)

lemma assigns_without_object:
  "assigns (PDict [(''predicate'', PDict [(''value'', PStr u)])]) = None"
  by (simp add: assigns_def binding_predicate_def binding_value_def)

text \<open>
  C10, as stated: when two or more bindings carry the same recognized predicate URI, the
  extraction keeps the value of the last such binding. It fails when the last such
  binding has no object value: the loop skips that binding and the value of the earlier
  one stays. Here both bindings carry the discharge URI, the second has no \<open>object\<close>
  entry (its value is \<open>None\<close>), and the extracted discharge is the value of the first.
\<close>

theorem C10_last_binding_without_value:
  "extracted (sparql_response [sparql_binding (Parameter_uri DISCHARGE) ''1'',
       PDict [(''predicate'', PDict [(''value'', PStr (Parameter_uri DISCHARGE))])]])
     ''2044'' ''discharge'' = Some (PStr ''1'')
   \<and> binding_predicate (PDict [(''predicate'', PDict [(''value'', PStr (Parameter_uri DISCHARGE))])])
       = Inr (PStr (Parameter_uri DISCHARGE))
   \<and> binding_value (PDict [(''predicate'', PDict [(''value'', PStr (Parameter_uri DISCHARGE))])])
       = Inr PNone"
  by (simp add: extracted_def extract_data_sparql_response extract_sparql_binding
      extract_without_object map_predicate_DISCHARGE Parameter_uri_nonempty
      binding_predicate_def binding_value_def)

text \<open>
  C10, amended: for every result set whose extraction returns, each Record field holds
  the object value of the last binding, in input order, among the bindings that are not
  skipped (non-empty predicate, object value not \<open>None\<close>) and whose predicate maps to
  that field: later such bindings overwrite earlier ones for the same field. A field no
  such binding maps to is absent, except the station field, which holds the station
  identifier.
\<close>

theorem C10_last_assignment_wins:
  assumes "py_getitem results ''results'' = Inr r"
    and "py_getitem r ''bindings'' = Inr (PList bs)"
    and "extract_data results sid = Inr d"
  shows "d f = (case last_value bs f of
                  Some v \<Rightarrow> Some v
                | None \<Rightarrow> if f = ''station_id'' then Some (PStr sid) else None)"
proof -
  from assms have "extract_loop [''station_id'' \<mapsto> PStr sid] bs = Inr d"
    by (simp add: extract_data_def)
  from extract_loop_last_value [OF this, of f] show ?thesis
    by (auto split: option.splits)
qed

theorem C10_last_assignment_wins_witness:
  "extracted (sparql_response [sparql_binding (Parameter_uri DISCHARGE) ''1'',
      sparql_binding (Parameter_uri DISCHARGE) ''2'',
      PDict [(''predicate'', PDict [(''value'', PStr (Parameter_uri DISCHARGE))])]])
     ''2044'' ''discharge''
    = Some (PStr ''2'')"
proof -
  let ?bs = "[sparql_binding (Parameter_uri DISCHARGE) ''1'',
      sparql_binding (Parameter_uri DISCHARGE) ''2'',
      PDict [(''predicate'', PDict [(''value'', PStr (Parameter_uri DISCHARGE))])]]"
  let ?d = "[''station_id'' \<mapsto> PStr ''2044'', ''discharge'' \<mapsto> PStr ''2'']"
  have h1: "py_getitem (sparql_response ?bs) ''results'' = Inr (PDict [(''bindings'', PList ?bs)])"
    by (simp add: sparql_response_def)
  have h2: "py_getitem (PDict [(''bindings'', PList ?bs)]) ''bindings'' = Inr (PList ?bs)"
    by simp
  have h3: "extract_data (sparql_response ?bs) ''2044'' = Inr ?d"
    by (simp add: extract_data_sparql_response extract_sparql_binding extract_without_object
        map_predicate_DISCHARGE Parameter_uri_nonempty)
  have lv: "last_value ?bs ''discharge'' = Some (PStr ''2'')"
    by (simp add: last_value_def List.map_filter_simps assigns_sparql_binding
        assigns_without_object map_predicate_DISCHARGE Parameter_uri_nonempty)
  have "?d ''discharge'' = Some (PStr ''2'')"
    using C10_last_assignment_wins [OF h1 h2 h3, of "''discharge''"] lv by simp
  then show ?thesis by (simp add: extracted_def h3)
qed

subsection \<open>The reference library on the example\<close>

lemma py_sel:
  "str_strip py = ascii_strip" "str_lower py = ascii_lower" "str_of py = ref_str_of"
  "Decimal_new py = ref_Decimal" "Decimal_str py = ref_Decimal_str"
  "fromisoformat py = ref_fromisoformat" "isoformat py = ref_isoformat"
  "pyd_strip py = ascii_strip" "pyd_decimal py = ref_pyd_decimal" "pyd_int py = ref_pyd_int"
  "read_csv py = ref_read_csv" "to_csv py = ref_to_csv"
  by (simp_all add: py_def)

lemma fromisoformat_example:
  "ref_fromisoformat (str_replace_char ''2024-01-15T10:30:00Z'' (CHR ''Z'') ''+00:00'') =
     Some example_time"
  by (simp add: str_replace_char_def ref_fromisoformat_def parse_date_def parse_hms_def
      parse_offset_def take_num_def expect_char_def is_digit_def nat_of_digits_def
      days_in_month_def example_time_def)

lemma isoformat_example: "ref_isoformat example_time = ''2024-01-15T10:30:00+00:00''"
  by (simp add: ref_isoformat_def pad_def offset_str_def digit_char_def example_time_def)

lemma Decimal_example:
  "ascii_strip ''123.45'' \<noteq> []"
  "ref_Decimal ''123.45'' = Some (Finite False 12345 (- 2))"
  "ref_Decimal_str (Finite False 12345 (- 2)) = ''123.45''"
  by (simp_all add: ref_Decimal_def dec_finite_def dec_exponent_def ascii_strip_def is_space_def
      is_digit_def ascii_lower_def lower_char_def nat_of_digits_def Let_def ref_Decimal_str_def
      digit_char_def)

lemma Decimal_example_short:
  "ascii_strip ''1.5'' \<noteq> []" "ref_Decimal ''1.5'' = Some (Finite False 15 (- 1))"
  by (simp_all add: ref_Decimal_def dec_finite_def dec_exponent_def ascii_strip_def is_space_def
      is_digit_def ascii_lower_def lower_char_def nat_of_digits_def Let_def)

lemma pyd_int_example: "ref_pyd_int (PStr ''9'') = Some 9"
  by (simp add: ref_pyd_int_def signed_digits_def ascii_strip_def is_space_def is_digit_def
      nat_of_digits_def)

lemma strip_example: "ascii_strip ''2044'' = ''2044''"
  by (simp add: ascii_strip_def is_space_def)

lemma header_record: "csv_record (map Some CSV_COLUMNS) = HEADER"
  by (simp add: CSV_COLUMNS_def csv_record_def csv_field_def csv_needs_quote_def HEADER_def)

lemma read_header_only:
  "ref_read_csv (HEADER @ lineterminator) = Inr \<lparr>columns = CSV_COLUMNS, rows = []\<rparr>"
  by (simp add: ref_read_csv_def CSV_COLUMNS_def HEADER_def lineterminator_def)

lemma init_fresh:
  "CsvHandler_init py path None =
     \<lparr>csv_path = path, csv_file = Some (HEADER @ lineterminator), processed_keys = {},
      logged = [(INFO, ''Created new CSV file: '' @ path), (DEBUG, ''Loaded 0 existing records'')]\<rparr>"
proof -
  have ne: "HEADER @ lineterminator \<noteq> []" by (simp add: lineterminator_def)
  show ?thesis
    using ne
    by (simp add: CsvHandler_init_def ensure_csv_exists_def load_processed_keys_def
        log_record_def csv_writerow_def header_record py_sel read_header_only keys_of_frame_def
        digit_char_def)
qed

lemma extract_example:
  "extract_data example_response ''2044'' =
     Inr [''station_id'' \<mapsto> PStr ''2044'', ''timestamp'' \<mapsto> PStr ''2024-01-15T10:30:00Z'',
          ''discharge'' \<mapsto> PStr ''123.45'']"
  by (simp add: example_response_def extract_data_sparql_response extract_sparql_binding
      map_predicate_MEASUREMENT_TIME map_predicate_DISCHARGE Parameter_uri_nonempty)

lemma gate_example:
  "timestamp_parseable py (extracted example_response ''2044'')"
  "measured_after_coercion py (extracted example_response ''2044'')"
  "fields_valid py (extracted example_response ''2044'')"
  by (simp_all add: extracted_def extract_example timestamp_parseable_def
      measured_after_coercion_def fields_valid_def coerced_def parse_decimal_def py_str_def
      py_sel fromisoformat_example Decimal_example field_decimal_def field_danger_level_def
      ref_pyd_decimal_def)

lemma process_results_example:
  "process_results py example_response ''2044'' = Inr (Some example_measurement)"
  by (simp add: example_response_def example_measurement_def
      process_results_def validate_sparql_response extract_data_sparql_response
      extract_sparql_binding map_predicate_MEASUREMENT_TIME map_predicate_DISCHARGE
      Parameter_uri_nonempty data_get_def Measurement_init_def field_station_id_def
      field_timestamp_def parse_timestamp_def field_decimal_def parse_decimal_def py_str_def
      field_danger_level_def field_is_liter_def has_measurements_def py_sel
      fromisoformat_example Decimal_example strip_example ref_pyd_decimal_def)

lemma row_example:
  "DictWriter_writerow CSV_COLUMNS (to_csv_dict py example_measurement)
     = ''2024-01-15T10:30:00+00:00,2044,123.45,,,,'' @ lineterminator"
  by (simp add: example_measurement_def to_csv_dict_def py_sel isoformat_example Decimal_example
      DictWriter_writerow_def dict_to_list_def CSV_COLUMNS_def csv_writerow_def csv_record_def
      csv_field_def csv_needs_quote_def)


subsection \<open>The validity gate of the mapper\<close>

lemma field_decimal_coerced:
  "field_decimal L (d f) = Some x \<Longrightarrow> x = coerced L d f"
  by (auto simp: field_decimal_def coerced_def split: option.splits if_splits)

lemma gate_timestamp:
  "truthy (data_get d ''timestamp'') \<and> field_timestamp L (d ''timestamp'') \<noteq> None
     \<longleftrightarrow> timestamp_parseable L d"
  by (auto simp: data_get_def field_timestamp_def parse_timestamp_def timestamp_parseable_def
      split: option.splits pyval.splits sum.splits)

lemma init_succeeds_iff:
  assumes "d ''station_id'' = Some (PStr s)"
  shows "(\<exists>m. Measurement_init L d = Inr m)
           \<longleftrightarrow> field_timestamp L (d ''timestamp'') \<noteq> None \<and> fields_valid L d"
  using assms
  by (auto simp: Measurement_init_def fields_valid_def field_station_id_def field_is_liter_def
      split: option.splits)

lemma init_measurements:
  assumes "Measurement_init L d = Inr m"
  shows "has_measurements m \<longleftrightarrow> measured_after_coercion L d"
proof -
  from assms have "field_decimal L (d ''discharge'') = Some (discharge m)"
    and "field_decimal L (d ''water_level'') = Some (water_level m)"
    and "field_decimal L (d ''water_temperature'') = Some (water_temperature m)"
    by (auto simp: Measurement_init_def split: option.splits)
  then show ?thesis
    by (auto simp: has_measurements_def measured_after_coercion_def dest!: field_decimal_coerced)
qed

lemma process_results_valid:
  assumes v: "validate_results results = Inr True" and e: "extract_data results sid = Inr d"
  shows "if timestamp_parseable L d \<and> measured_after_coercion L d \<and> fields_valid L d
         then \<exists>m. Measurement_init L d = Inr m \<and> process_results L results sid = Inr (Some m)
         else process_results L results sid = Inr None"
proof -
  have st: "d ''station_id'' = Some (PStr sid)" by (rule extract_data_station [OF e])
  have pr: "process_results L results sid =
      (if \<not> truthy (data_get d ''timestamp'') then Inr None
       else (case Measurement_init L d of
               Inl e \<Rightarrow> Inr None
             | Inr m \<Rightarrow> if has_measurements m then Inr (Some m) else Inr None))"
    by (simp add: process_results_def v e)
  show ?thesis
  proof (cases "Measurement_init L d")
    case (Inl err)
    then have "\<not> (field_timestamp L (d ''timestamp'') \<noteq> None \<and> fields_valid L d)"
      using init_succeeds_iff [of d sid L] st by auto
    then have "\<not> (timestamp_parseable L d \<and> fields_valid L d)"
      using gate_timestamp [of d L] by blast
    then show ?thesis using Inl pr by auto
  next
    case (Inr m)
    then have ok: "field_timestamp L (d ''timestamp'') \<noteq> None" "fields_valid L d"
      using init_succeeds_iff [of d sid L] st by auto
    have tp: "timestamp_parseable L d \<longleftrightarrow> truthy (data_get d ''timestamp'')"
      using gate_timestamp [of d L] ok by blast
    show ?thesis
      using Inr pr ok tp init_measurements [OF Inr] by auto
  qed
qed

lemma only_time_and_danger:
  "process_results L (sparql_response [sparql_binding (Parameter_uri MEASUREMENT_TIME) ts,
       sparql_binding (Parameter_uri DANGER_LEVEL) dl]) sid = Inr None"
proof -
  let ?R = "sparql_response [sparql_binding (Parameter_uri MEASUREMENT_TIME) ts,
       sparql_binding (Parameter_uri DANGER_LEVEL) dl]"
  let ?d = "[''station_id'' \<mapsto> PStr sid, ''timestamp'' \<mapsto> PStr ts, ''danger_level'' \<mapsto> PStr dl]"
  have v: "validate_results ?R = Inr True"
    by (simp add: validate_results_def sparql_response_def)
  have b1: "extract_binding d (sparql_binding (Parameter_uri MEASUREMENT_TIME) ts)
      = Inr (d(''timestamp'' \<mapsto> PStr ts))" for d
    by (simp add: extract_binding_def sparql_binding_def binding_predicate_def binding_value_def
        map_predicate_MEASUREMENT_TIME Parameter_uri_nonempty)
  have b2: "extract_binding d (sparql_binding (Parameter_uri DANGER_LEVEL) dl)
      = Inr (d(''danger_level'' \<mapsto> PStr dl))" for d
    by (simp add: extract_binding_def sparql_binding_def binding_predicate_def binding_value_def
        map_predicate_DANGER_LEVEL Parameter_uri_nonempty)
  have e: "extract_data ?R sid = Inr ?d"
    by (simp add: extract_data_def sparql_response_def b1 b2)
  have "\<not> measured_after_coercion L ?d"
    by (simp add: measured_after_coercion_def coerced_def)
  with process_results_valid [OF v e, of L] show ?thesis by simp
qed

lemma extract_danger_example:
  "extract_data (sparql_response
       [sparql_binding (Parameter_uri MEASUREMENT_TIME) ''2024-01-15T10:30:00Z'',
        sparql_binding (Parameter_uri DISCHARGE) ''1.5'',
        sparql_binding (Parameter_uri DANGER_LEVEL) ''9'']) ''2044''
   = Inr [''station_id'' \<mapsto> PStr ''2044'', ''timestamp'' \<mapsto> PStr ''2024-01-15T10:30:00Z'',
          ''discharge'' \<mapsto> PStr ''1.5'', ''danger_level'' \<mapsto> PStr ''9'']"
  by (simp add: extract_data_sparql_response extract_sparql_binding
      map_predicate_MEASUREMENT_TIME map_predicate_DISCHARGE map_predicate_DANGER_LEVEL
      Parameter_uri_nonempty)

text \<open>
  C1, as stated: \<open>process_results\<close> returns a Record if and only if the extracted fields
  contain a parseable timestamp and at least one of discharge, water level and water
  temperature is non-null after coercion. It fails on a response with a parseable
  timestamp, the discharge \<open>1.5\<close> and the danger level \<open>9\<close>: the timestamp parses and the
  discharge is non-null after coercion, but the model rejects a danger level outside 0
  to 5 (\<open>ge=0, le=5\<close>), the construction raises, and the mapper returns none.
\<close>

theorem C1_danger_level_out_of_range:
  "timestamp_parseable py (extracted (sparql_response
       [sparql_binding (Parameter_uri MEASUREMENT_TIME) ''2024-01-15T10:30:00Z'',
        sparql_binding (Parameter_uri DISCHARGE) ''1.5'',
        sparql_binding (Parameter_uri DANGER_LEVEL) ''9'']) ''2044'')
   \<and> measured_after_coercion py (extracted (sparql_response
       [sparql_binding (Parameter_uri MEASUREMENT_TIME) ''2024-01-15T10:30:00Z'',
        sparql_binding (Parameter_uri DISCHARGE) ''1.5'',
        sparql_binding (Parameter_uri DANGER_LEVEL) ''9'']) ''2044'')
   \<and> process_results py (sparql_response
       [sparql_binding (Parameter_uri MEASUREMENT_TIME) ''2024-01-15T10:30:00Z'',
        sparql_binding (Parameter_uri DISCHARGE) ''1.5'',
        sparql_binding (Parameter_uri DANGER_LEVEL) ''9'']) ''2044'' = Inr None"
  by (simp add: extracted_def extract_danger_example timestamp_parseable_def
      measured_after_coercion_def coerced_def parse_decimal_def py_str_def py_sel
      fromisoformat_example Decimal_example_short process_results_def validate_sparql_response
      data_get_def Measurement_init_def field_station_id_def field_timestamp_def
      parse_timestamp_def field_decimal_def field_danger_level_def field_is_liter_def
      pyd_int_example ref_pyd_decimal_def)

text \<open>
  C1, amended: a result set that fails the structural validation yields none. For a
  result set that passes it and whose extraction returns, \<open>process_results\<close> returns a
  Record (the one constructed from the extracted fields) if and only if the extracted
  fields contain a non-empty parseable timestamp, at least one of discharge, water level
  and water temperature is non-null after coercion, and the fields pass the model's
  validation (every coerced decimal is accepted by its field, and the danger level, if
  extracted, converts to an integer from 0 to 5); in every other such case it returns
  none. In particular a result set bearing only measurementTime and dangerLevel yields
  none, whatever their values.
\<close>

theorem C1_record_iff_gate:
  "(validate_results results = Inr False \<longrightarrow> process_results L results sid = Inr None)
   \<and> (validate_results results = Inr True \<and> extract_data results sid = Inr d \<longrightarrow>
        (if timestamp_parseable L d \<and> measured_after_coercion L d \<and> fields_valid L d
         then \<exists>m. Measurement_init L d = Inr m \<and> process_results L results sid = Inr (Some m)
         else process_results L results sid = Inr None))
   \<and> process_results L (sparql_response [sparql_binding (Parameter_uri MEASUREMENT_TIME) ts,
          sparql_binding (Parameter_uri DANGER_LEVEL) dl]) sid = Inr None"
proof (intro conjI impI)
  assume "validate_results results = Inr False"
  then show "process_results L results sid = Inr None" by (simp add: process_results_def)
next
  assume "validate_results results = Inr True \<and> extract_data results sid = Inr d"
  then show "if timestamp_parseable L d \<and> measured_after_coercion L d \<and> fields_valid L d
         then \<exists>m. Measurement_init L d = Inr m \<and> process_results L results sid = Inr (Some m)
         else process_results L results sid = Inr None"
    using process_results_valid [of results sid d L] by blast
next
  show "process_results L (sparql_response [sparql_binding (Parameter_uri MEASUREMENT_TIME) ts,
          sparql_binding (Parameter_uri DANGER_LEVEL) dl]) sid = Inr None"
    by (rule only_time_and_danger)
qed

theorem C1_record_iff_gate_witness:
  "timestamp_parseable py (extracted example_response ''2044'')
   \<and> measured_after_coercion py (extracted example_response ''2044'')
   \<and> fields_valid py (extracted example_response ''2044'')
   \<and> (\<exists>m. process_results py example_response ''2044'' = Inr (Some m))"
proof -
  let ?d = "[''station_id'' \<mapsto> PStr ''2044'', ''timestamp'' \<mapsto> PStr ''2024-01-15T10:30:00Z'',
          ''discharge'' \<mapsto> PStr ''123.45'']"
  have v: "validate_results example_response = Inr True"
    by (simp add: example_response_def validate_sparql_response)
  have e: "extract_data example_response ''2044'' = Inr ?d" by (rule extract_example)
  have d: "extracted example_response ''2044'' = ?d" by (simp add: extracted_def e)
  have c: "timestamp_parseable py ?d" "measured_after_coercion py ?d" "fields_valid py ?d"
    using gate_example unfolding d by blast+
  show ?thesis
    using C1_record_iff_gate [of example_response py "''2044''" ?d] v e c unfolding d by auto
qed

subsection \<open>The store: staging, duplicates within a batch, repeated saves\<close>

lemma staged_Nil: "staged L K [] = []"
  by (simp add: staged_def)

lemma staged_Cons:
  "staged L K (m # ms) =
     (if unique_key L m \<notin> K then m # staged L (insert (unique_key L m) K) ms
      else staged L K ms)"
proof -
  have up: "[0 ..< length (m # ms)] = 0 # map Suc [0 ..< length ms]"
    by (simp add: upt_conv_Cons map_Suc_upt del: upt_Suc)
  show ?thesis
    unfolding staged_def up
    by (auto simp: filter_map o_def intro!: filter_cong arg_cong2 [where f = map])
qed

text \<open>The loop returns the rows of the staged records and the index with every key added.\<close>

lemma save_loop_staged:
  "save_loop L acc K ms =
     (acc @ map (to_csv_dict L) (staged L K ms), K \<union> unique_key L ` set ms)"
  by (induction ms arbitrary: acc K) (auto simp: staged_Nil staged_Cons)

lemma staged_empty_iff: "staged L K ms = [] \<longleftrightarrow> unique_key L ` set ms \<subseteq> K"
  by (induction ms arbitrary: K) (auto simp: staged_Nil staged_Cons)

lemma save_measurements_staged:
  "save_measurements L st ms io =
     (let new = staged L (processed_keys st) ms;
          st1 = st\<lparr>processed_keys := processed_keys st \<union> unique_key L ` set ms\<rparr>
      in if new = [] then (0, st1)
         else (case io of
                 IoOk \<Rightarrow>
                   (length new,
                    log_record INFO (''Saved '' @ digits_of (length new) @ '' new records to ''
                                       @ csv_path st)
                      (st1\<lparr>csv_file := Some (file_text st
                               @ concat (map (\<lambda>m. DictWriter_writerow CSV_COLUMNS (to_csv_dict L m))
                                          new))\<rparr>))
               | IoError left \<Rightarrow>
                   (0, log_record ERROR ''Error writing to CSV: '' (st1\<lparr>csv_file := left\<rparr>))))"
  by (cases ms) (auto simp: save_measurements_def save_loop_staged Let_def staged_Nil o_def
      DictWriter_writerows_def split: io_outcome.splits)

lemma save_keys:
  "processed_keys (snd (save_measurements L st ms io))
     = processed_keys st \<union> unique_key L ` set ms"
  by (auto simp: save_measurements_staged Let_def log_record_def split: io_outcome.splits)

text \<open>A batch whose keys are all in the index changes nothing and returns 0.\<close>

lemma save_known:
  assumes "unique_key L ` set ms \<subseteq> processed_keys st"
  shows "save_measurements L st ms io = (0, st)"
proof -
  have "staged L (processed_keys st) ms = []" using assms by (simp add: staged_empty_iff)
  moreover have "processed_keys st \<union> unique_key L ` set ms = processed_keys st"
    using assms by auto
  ultimately show ?thesis by (simp add: save_measurements_staged)
qed


text \<open>
  C3: the duplicate key of a record is \<open>isoformat(timestamp) + "_" + station_id\<close>. A
  save stages exactly the records whose key is neither in the index nor carried by an
  earlier record of the batch: it returns their number, appends their rows, each with
  its line terminator, in order to the text of the file when the write succeeds, and
  adds the key of every record of the batch to the index. Hence two records with the same timestamp and station, saved to a store
  that does not know their key, give one stored row, that of the first; and a second
  save of the same record set, whatever the outcome of the writes, changes nothing and
  returns 0.
\<close>

theorem C3_dedup_key_and_idempotence:
  "unique_key L m = isoformat L (timestamp m) @ ''_'' @ station_id m
   \<and> fst (save_measurements L st ms IoOk) = length (staged L (processed_keys st) ms)
   \<and> csv_file (snd (save_measurements L st ms IoOk)) =
       (if staged L (processed_keys st) ms = [] then csv_file st
        else Some (file_text st
               @ concat (map (\<lambda>m. DictWriter_writerow CSV_COLUMNS (to_csv_dict L m))
                          (staged L (processed_keys st) ms))))
   \<and> processed_keys (snd (save_measurements L st ms io1))
       = processed_keys st \<union> unique_key L ` set ms
   \<and> (timestamp m1 = timestamp m2 \<and> station_id m1 = station_id m2
        \<and> unique_key L m1 \<notin> processed_keys st \<longrightarrow>
        fst (save_measurements L st [m1, m2] IoOk) = 1
        \<and> csv_file (snd (save_measurements L st [m1, m2] IoOk)) =
            Some (file_text st @ DictWriter_writerow CSV_COLUMNS (to_csv_dict L m1)))
   \<and> save_measurements L (snd (save_measurements L st ms io1)) ms io2 =
       (0, snd (save_measurements L st ms io1))"
proof (intro conjI impI)
  show "unique_key L m = isoformat L (timestamp m) @ ''_'' @ station_id m"
    by (simp add: unique_key_def)
  show "fst (save_measurements L st ms IoOk) = length (staged L (processed_keys st) ms)"
    by (simp add: save_measurements_staged Let_def)
  show "csv_file (snd (save_measurements L st ms IoOk)) =
       (if staged L (processed_keys st) ms = [] then csv_file st
        else Some (file_text st
               @ concat (map (\<lambda>m. DictWriter_writerow CSV_COLUMNS (to_csv_dict L m))
                          (staged L (processed_keys st) ms))))"
    by (simp add: save_measurements_staged Let_def log_record_def)
  show "processed_keys (snd (save_measurements L st ms io1))
       = processed_keys st \<union> unique_key L ` set ms"
    by (rule save_keys)
  show "save_measurements L (snd (save_measurements L st ms io1)) ms io2 =
       (0, snd (save_measurements L st ms io1))"
    by (rule save_known) (simp add: save_keys)
next
  assume a: "timestamp m1 = timestamp m2 \<and> station_id m1 = station_id m2
        \<and> unique_key L m1 \<notin> processed_keys st"
  then have k: "unique_key L m2 = unique_key L m1" by (simp add: unique_key_def)
  have s: "staged L (processed_keys st) [m1, m2] = [m1]"
    using a k by (simp add: staged_Cons staged_Nil)
  show "fst (save_measurements L st [m1, m2] IoOk) = 1"
    by (simp add: save_measurements_staged Let_def s)
  show "csv_file (snd (save_measurements L st [m1, m2] IoOk)) =
            Some (file_text st @ DictWriter_writerow CSV_COLUMNS (to_csv_dict L m1))"
    by (simp add: save_measurements_staged Let_def s log_record_def)
qed

theorem C3_dedup_key_and_idempotence_witness:
  "fst (save_measurements py (CsvHandler_init py ''out.csv'' None)
          [example_measurement, example_measurement\<lparr>water_level := Some (Finite False 5 0)\<rparr>] IoOk) = 1
   \<and> csv_file (snd (save_measurements py (CsvHandler_init py ''out.csv'' None)
          [example_measurement, example_measurement\<lparr>water_level := Some (Finite False 5 0)\<rparr>] IoOk))
       = Some (HEADER @ lineterminator
                 @ ''2024-01-15T10:30:00+00:00,2044,123.45,,,,'' @ lineterminator)
   \<and> fst (save_measurements py
        (snd (save_measurements py (CsvHandler_init py ''out.csv'' None)
          [example_measurement, example_measurement\<lparr>water_level := Some (Finite False 5 0)\<rparr>] IoOk))
        [example_measurement, example_measurement\<lparr>water_level := Some (Finite False 5 0)\<rparr>] IoOk) = 0"
proof -
  let ?st = "CsvHandler_init py ''out.csv'' None"
  let ?m2 = "example_measurement\<lparr>water_level := Some (Finite False 5 0)\<rparr>"
  have h: "timestamp example_measurement = timestamp ?m2
        \<and> station_id example_measurement = station_id ?m2
        \<and> unique_key py example_measurement \<notin> processed_keys ?st"
    by (simp add: init_fresh)
  have f: "file_text ?st = HEADER @ lineterminator" by (simp add: init_fresh file_text_def)
  note c = C3_dedup_key_and_idempotence
    [of py example_measurement ?st "[example_measurement, ?m2]" IoOk example_measurement ?m2 IoOk]
  from c h have 1: "fst (save_measurements py ?st [example_measurement, ?m2] IoOk) = 1"
    and 2: "csv_file (snd (save_measurements py ?st [example_measurement, ?m2] IoOk)) =
            Some (file_text ?st
                   @ DictWriter_writerow CSV_COLUMNS (to_csv_dict py example_measurement))"
    by blast+
  from c have 3: "save_measurements py
          (snd (save_measurements py ?st [example_measurement, ?m2] IoOk))
          [example_measurement, ?m2] IoOk
        = (0, snd (save_measurements py ?st [example_measurement, ?m2] IoOk))"
    by blast
  show ?thesis
    unfolding 1 2 3 f row_example by simp
qed













subsection \<open>The store: the de-duplication pass\<close>









subsection \<open>End to end\<close>

text \<open>
  C7: the well-formed response for station 2044 with measurementTime
  \<open>2024-01-15T10:30:00Z\<close> and discharge \<open>123.45\<close>, mapped and saved to a store that
  starts without a file, leaves a file of exactly two lines, each ended by CR LF: the
  header, with the columns in the order timestamp, station_id, discharge, water_level,
  danger_level, water_temperature, is_liter, and the row
  \<open>2024-01-15T10:30:00+00:00,2044,123.45,,,,\<close> (the \<open>Z\<close> read as the offset \<open>+00:00\<close>, every
  unset field empty); one row is counted.
\<close>

theorem C7_end_to_end_row:
  "map_sum id (\<lambda>p. (fst p, csv_file (snd p)))
     (map_and_store py
        (sparql_response
           [sparql_binding (Parameter_uri MEASUREMENT_TIME) ''2024-01-15T10:30:00Z'',
            sparql_binding (Parameter_uri DISCHARGE) ''123.45''])
        ''2044'' (CsvHandler_init py path None) IoOk)
   = Inr (1, Some (''timestamp,station_id,discharge,water_level,danger_level,water_temperature,is_liter''
                     @ [CHR 0x0D, CHR 0x0A]
                     @ ''2024-01-15T10:30:00+00:00,2044,123.45,,,,''
                     @ [CHR 0x0D, CHR 0x0A]))"
  using process_results_example
  by (simp add: example_response_def map_and_store_def save_measurements_staged init_fresh
      staged_Cons staged_Nil Let_def row_example file_text_def log_record_def HEADER_def
      lineterminator_def)

end
